theory Spec2Isabelle
  imports Main
begin

section \<open>JavaScript values\<close>

text \<open>
  The routes work on untyped values: parsed response bodies, the request body and the
  payloads they build. \<open>Undefined\<close> is never the result of \<open>JSON.parse\<close>; it is what a
  property read yields when the property is absent. An object is the list of its own
  properties, in enumeration order (keys distinct, as \<open>JSON.parse\<close> leaves them). The
  routes never compute with a number: they test its \<open>typeof\<close> and its truthiness and
  print it. So a number is carried by its canonical rendering (\<open>Number.prototype.toString\<close>:
  \<open>0\<close>, \<open>256\<close>, \<open>-0.3\<close>), which tells two numbers apart unless they are \<open>0\<close> and \<open>-0\<close>.
  A string is carried by the bytes of its UTF-8 encoding.
\<close>

datatype number = Number string

datatype jsval =
    Undefined
  | JNull
  | JBool bool
  | JNum number
  | JStr string
  | JArr "jsval list"
  | JObj "(string \<times> jsval) list"

text \<open>
  What is thrown, with its message. The messages of the engine's own errors (the
  TypeError of a property read on \<open>null\<close>, of a rejected \<open>fetch\<close>, of a call to a missing
  method, the SyntaxError of \<open>JSON.parse\<close>) are the engine's business; the model fixes one
  text for each, and only the \<open>error\<close> field of a 500 response shows it.
\<close>

datatype js_error =
    Error string
  | TypeError string
  | SyntaxError string

fun message :: "js_error \<Rightarrow> string" where
  "message (Error m) = m"
| "message (TypeError m) = m"
| "message (SyntaxError m) = m"

fun truthy :: "jsval \<Rightarrow> bool" where
  "truthy Undefined = False"
| "truthy JNull = False"
| "truthy (JBool b) = b"
| "truthy (JNum (Number r)) = (r \<noteq> ''0'')"
| "truthy (JStr s) = (s \<noteq> [])"
| "truthy (JArr xs) = True"
| "truthy (JObj kvs) = True"

fun isArray :: "jsval \<Rightarrow> bool" where
  "isArray (JArr xs) = True"
| "isArray v = False"

fun is_number :: "jsval \<Rightarrow> bool" where
  "is_number (JNum r) = True"
| "is_number v = False"

fun is_string :: "jsval \<Rightarrow> bool" where
  "is_string (JStr s) = True"
| "is_string v = False"

fun nullish :: "jsval \<Rightarrow> bool" where
  "nullish Undefined = True"
| "nullish JNull = True"
| "nullish v = False"

text \<open>
  \<open>get k v\<close> is the property read \<open>v.k\<close> for the property names the routes use
  (\<open>embedding\<close>, \<open>embeddings\<close>, \<open>data\<close>, \<open>answer\<close>, \<open>score\<close>, \<open>generated_text\<close>, \<open>text\<close>,
  \<open>question\<close>, ...), none of which is inherited by an array, a string, a number or a
  boolean. On \<open>null\<close> and \<open>undefined\<close> JavaScript throws a TypeError; every caller below
  tests \<open>nullish\<close> before it reads, and raises that error itself.
\<close>

fun get :: "string \<Rightarrow> jsval \<Rightarrow> jsval" where
  "get k (JObj kvs) = (case map_of kvs k of None \<Rightarrow> Undefined | Some v \<Rightarrow> v)"
| "get k v = Undefined"

text \<open>\<open>idx0 v\<close> is \<open>v[0]\<close>: the first element of an array, the property \<open>"0"\<close> of an object,
  the first character of a string (its first byte here: the routes only ever test the
  type of \<open>v[0]\<close>, which is \<open>string\<close> either way).\<close>

fun idx0 :: "jsval \<Rightarrow> jsval" where
  "idx0 (JArr []) = Undefined"
| "idx0 (JArr (x # xs)) = x"
| "idx0 (JStr []) = Undefined"
| "idx0 (JStr (c # cs)) = JStr [c]"
| "idx0 (JObj kvs) = (case map_of kvs ''0'' of None \<Rightarrow> Undefined | Some v \<Rightarrow> v)"
| "idx0 v = Undefined"

text \<open>\<open>v?.k\<close>\<close>

definition optget :: "string \<Rightarrow> jsval \<Rightarrow> jsval" where
  "optget k v = (if nullish v then Undefined else get k v)"

text \<open>\<open>json.length\<close> as a condition, where \<open>json\<close> is known to be an array.\<close>

fun nonempty_array :: "jsval \<Rightarrow> bool" where
  "nonempty_array (JArr (x # xs)) = True"
| "nonempty_array v = False"

definition cannot_read :: "string \<Rightarrow> js_error" where
  "cannot_read k = TypeError (''Cannot read properties of null (reading '' @ [CHR 0x27] @ k @ [CHR 0x27] @ '')'')"

subsection \<open>Strings\<close>

text \<open>
  A JavaScript string is carried by the bytes of its UTF-8 encoding. White space is what
  ECMAScript calls WhiteSpace and LineTerminator: the one-byte characters TAB, LF, VT, FF,
  CR and SP; the two-byte U+00A0; and the three-byte U+1680, U+2000 to U+200A, U+2028,
  U+2029, U+202F, U+205F, U+3000 and U+FEFF.
\<close>

definition ws1 :: "char \<Rightarrow> bool" where
  "ws1 a = (a \<in> set [CHR 0x09, CHR 0x0A, CHR 0x0B, CHR 0x0C, CHR 0x0D, CHR 0x20])"

definition ws2 :: "char \<Rightarrow> char \<Rightarrow> bool" where
  "ws2 a b = (a = CHR 0xC2 \<and> b = CHR 0xA0)"

definition ws3 :: "char \<Rightarrow> char \<Rightarrow> char \<Rightarrow> bool" where
  "ws3 a b c =
     ((a, b, c) \<in> set
        [(CHR 0xE1, CHR 0x9A, CHR 0x80),
         (CHR 0xE2, CHR 0x80, CHR 0x80), (CHR 0xE2, CHR 0x80, CHR 0x81),
         (CHR 0xE2, CHR 0x80, CHR 0x82), (CHR 0xE2, CHR 0x80, CHR 0x83),
         (CHR 0xE2, CHR 0x80, CHR 0x84), (CHR 0xE2, CHR 0x80, CHR 0x85),
         (CHR 0xE2, CHR 0x80, CHR 0x86), (CHR 0xE2, CHR 0x80, CHR 0x87),
         (CHR 0xE2, CHR 0x80, CHR 0x88), (CHR 0xE2, CHR 0x80, CHR 0x89),
         (CHR 0xE2, CHR 0x80, CHR 0x8A),
         (CHR 0xE2, CHR 0x80, CHR 0xA8), (CHR 0xE2, CHR 0x80, CHR 0xA9),
         (CHR 0xE2, CHR 0x80, CHR 0xAF), (CHR 0xE2, CHR 0x81, CHR 0x9F),
         (CHR 0xE3, CHR 0x80, CHR 0x80), (CHR 0xEF, CHR 0xBB, CHR 0xBF)])"

text \<open>The string without the white space it starts with, for white space of one, two and
  three bytes recognised by \<open>p1\<close>, \<open>p2\<close> and \<open>p3\<close>.\<close>

fun strip ::
  "(char \<Rightarrow> bool) \<Rightarrow> (char \<Rightarrow> char \<Rightarrow> bool) \<Rightarrow> (char \<Rightarrow> char \<Rightarrow> char \<Rightarrow> bool)
     \<Rightarrow> string \<Rightarrow> string" where
  "strip p1 p2 p3 (a # b # c # s) =
     (if p1 a then strip p1 p2 p3 (b # c # s)
      else if p2 a b then strip p1 p2 p3 (c # s)
      else if p3 a b c then strip p1 p2 p3 s
      else a # b # c # s)"
| "strip p1 p2 p3 [a, b] =
     (if p1 a then strip p1 p2 p3 [b] else if p2 a b then [] else [a, b])"
| "strip p1 p2 p3 [a] = (if p1 a then [] else [a])"
| "strip p1 p2 p3 [] = []"

definition trimStart :: "string \<Rightarrow> string" where
  "trimStart s = strip ws1 ws2 ws3 s"

text \<open>From the end, the bytes of a character come in reverse.\<close>

definition trimEnd :: "string \<Rightarrow> string" where
  "trimEnd s = rev (strip ws1 (\<lambda>a b. ws2 b a) (\<lambda>a b c. ws3 c b a) (rev s))"

text \<open>\<open>String.prototype.trim\<close>\<close>

definition trim :: "string \<Rightarrow> string" where
  "trim s = trimEnd (trimStart s)"

text \<open>\<open>Array.prototype.join\<close> on an array of strings.\<close>

fun join :: "string \<Rightarrow> string list \<Rightarrow> string" where
  "join sep [] = []"
| "join sep [x] = x"
| "join sep (x # y # ys) = x @ sep @ join sep (y # ys)"

definition digit :: "nat \<Rightarrow> char" where
  "digit d = ''0123456789'' ! d"

fun show_nat :: "nat \<Rightarrow> string" where
  "show_nat n = (if n < 10 then [digit n] else show_nat (n div 10) @ [digit (n mod 10)])"

declare show_nat.simps [simp del]

subsection \<open>JSON.stringify\<close>

definition hex_digit :: "nat \<Rightarrow> char" where
  "hex_digit d = ''0123456789abcdef'' ! d"

definition escape_char :: "char \<Rightarrow> string" where
  "escape_char c =
     (if c = CHR 0x22 then [CHR 0x5C, CHR 0x22]
      else if c = CHR 0x5C then [CHR 0x5C, CHR 0x5C]
      else if c = CHR 0x08 then [CHR 0x5C, CHR ''b'']
      else if c = CHR 0x0C then [CHR 0x5C, CHR ''f'']
      else if c = CHR 0x0A then [CHR 0x5C, CHR ''n'']
      else if c = CHR 0x0D then [CHR 0x5C, CHR ''r'']
      else if c = CHR 0x09 then [CHR 0x5C, CHR ''t'']
      else if (of_char c :: nat) < 32
        then [CHR 0x5C] @ ''u00'' @ [hex_digit (of_char c div 16), hex_digit (of_char c mod 16)]
      else [c])"

definition quote :: "string \<Rightarrow> string" where
  "quote s = [CHR 0x22] @ concat (map escape_char s) @ [CHR 0x22]"

text \<open>
  \<open>JSON.stringify\<close> with one argument. A number that is not finite (\<open>JSON.parse\<close> reads
  \<open>1e999\<close> as \<open>Infinity\<close>) prints as \<open>null\<close>. An \<open>undefined\<close> element of an array prints
  as \<open>null\<close> and an \<open>undefined\<close> property is left out; for \<open>undefined\<close> itself the result
  is not a string, and no caller below passes it.
\<close>

fun stringify :: "jsval \<Rightarrow> string" where
  "stringify Undefined = []"
| "stringify JNull = ''null''"
| "stringify (JBool b) = (if b then ''true'' else ''false'')"
| "stringify (JNum (Number r)) =
     (if r \<in> set [''Infinity'', ''-Infinity'', ''NaN''] then ''null'' else r)"
| "stringify (JStr s) = quote s"
| "stringify (JArr xs) =
     ''['' @ join '','' (map (\<lambda>x. if x = Undefined then ''null'' else stringify x) xs) @ '']''"
| "stringify (JObj kvs) =
     ''{'' @ join '','' (map (\<lambda>kv. quote (fst kv) @ '':'' @ stringify (snd kv))
                          (filter (\<lambda>kv. snd kv \<noteq> Undefined) kvs)) @ ''}''"

section \<open>The network\<close>

text \<open>
  A request names the Hugging Face router URL by its parts: the model and, for the
  \<open>/models/<model>/pipeline/<task>\<close> routes, the task. The model name stands for its
  \<open>encodeURIComponent\<close> image.
\<close>

datatype url =
    HfPipeline string string
  | HfPlain string

record request =
  url :: url
  bearer :: string
  body :: jsval

text \<open>What \<open>fetch\<close> and \<open>resp.text()\<close> give: a rejected promise, or a status, the body text
  and what \<open>JSON.parse\<close> makes of that text (\<open>None\<close> when it throws).\<close>

datatype fetch_result =
    NetworkError
  | Response nat string "jsval option"

record rpc_error =
  rpc_message :: string

record section_row =
  section_content :: "string option"
  section_order :: nat
  similarity :: number

record rpc_result =
  rpc_data :: "section_row list option"
  rpc_err :: "rpc_error option"

datatype event =
    Fetch request
  | Sleep nat
  | Rpc jsval number jsval

text \<open>
  The world outside one request: the HTTP responses that will arrive, in the order the
  calls are made (a call made after the last one is a network error), and the calls made
  so far.
\<close>

record world =
  responses :: "fetch_result list"
  trace :: "event list"

definition fetch :: "request \<Rightarrow> world \<Rightarrow> fetch_result \<times> world" where
  "fetch rq w =
     (case responses w of
        [] \<Rightarrow> (NetworkError, w\<lparr>trace := trace w @ [Fetch rq]\<rparr>)
      | r # rs \<Rightarrow> (r, w\<lparr>responses := rs, trace := trace w @ [Fetch rq]\<rparr>))"

definition sleep :: "nat \<Rightarrow> world \<Rightarrow> world" where
  "sleep ms w = w\<lparr>trace := trace w @ [Sleep ms]\<rparr>"

definition ok :: "nat \<Rightarrow> bool" where
  "ok st = (200 \<le> st \<and> st \<le> 299)"

text \<open>\<open>if (!HF_API_KEY)\<close>: the variable is unset or empty.\<close>

fun key_missing :: "string option \<Rightarrow> bool" where
  "key_missing None = True"
| "key_missing (Some k) = (k = [])"

fun key_text :: "string option \<Rightarrow> string" where
  "key_text None = ''undefined''"
| "key_text (Some k) = k"

definition hf_request :: "string option \<Rightarrow> url \<Rightarrow> jsval \<Rightarrow> request" where
  "hf_request key u b = \<lparr>url = u, bearer = ''Bearer '' @ key_text key, body = b\<rparr>"

section \<open>Embedding: app/api/ask-question/route.ts\<close>

text \<open>The block under \<open>// normalize shapes\<close> of \<open>getHfEmbedding\<close>, lines 35 to 44.\<close>

definition ask_normalize :: "jsval \<Rightarrow> js_error + jsval" where
  "ask_normalize j =
     (if isArray j \<and> is_number (idx0 j) then Inr j
      else if isArray j \<and> isArray (idx0 j) \<and> is_number (idx0 (idx0 j)) then Inr (idx0 j)
      else if nullish j then Inl (cannot_read ''embedding'')
      else if truthy (get ''embedding'' j) \<and> isArray (get ''embedding'' j)
        then Inr (get ''embedding'' j)
      else if truthy (get ''embeddings'' j) \<and> isArray (idx0 (get ''embeddings'' j))
              \<and> is_number (idx0 (idx0 (get ''embeddings'' j)))
        then Inr (idx0 (get ''embeddings'' j))
      else if truthy (get ''embeddings'' j) \<and> is_number (idx0 (get ''embeddings'' j))
        then Inr (get ''embeddings'' j)
      else if truthy (get ''data'' j) \<and> isArray (get ''data'' j)
              \<and> truthy (optget ''embedding'' (idx0 (get ''data'' j)))
        then Inr (get ''embedding'' (idx0 (get ''data'' j)))
      else Inl (Error ''Unexpected HF embedding response shape''))"

definition feature_extraction :: "string \<Rightarrow> url" where
  "feature_extraction model = HfPipeline model ''feature-extraction''"

definition ask_getHfEmbedding ::
  "string option \<Rightarrow> string \<Rightarrow> string \<Rightarrow> world \<Rightarrow> (js_error + jsval) \<times> world" where
  "ask_getHfEmbedding key txt model w =
     (if key_missing key then (Inl (Error ''HF_API_KEY not set''), w)
      else
        (case fetch (hf_request key (feature_extraction model) (JObj [(''inputs'', JStr txt)])) w of
           (NetworkError, w1) \<Rightarrow> (Inl (TypeError ''fetch failed''), w1)
         | (Response st t js, w1) \<Rightarrow>
             if \<not> ok st then (Inl (Error (''HF embedding error: '' @ show_nat st @ '' '' @ t)), w1)
             else (case js of
                     None \<Rightarrow> (Inl (SyntaxError ''Unexpected token''), w1)
                   | Some j \<Rightarrow> (ask_normalize j, w1))))"

section \<open>Embedding: app/api/store-email/route.ts\<close>

text \<open>
  The block under \<open>// Normalize shapes:\<close>, lines 135 to 147. Whatever is thrown inside
  the \<open>try\<close> of an attempt is caught by its \<open>catch\<close>, which only logs the error, so a
  throw is \<open>None\<close> here.
\<close>

definition store_normalize :: "jsval \<Rightarrow> jsval option" where
  "store_normalize j =
     (if isArray j \<and> nonempty_array j \<and> is_number (idx0 j) then Some j
      else if isArray j \<and> isArray (idx0 j) \<and> is_number (idx0 (idx0 j)) then Some (idx0 j)
      else if nullish j then None
      else if truthy (get ''embedding'' j) \<and> isArray (get ''embedding'' j)
        then Some (get ''embedding'' j)
      else if truthy (get ''embeddings'' j) \<and> isArray (idx0 (get ''embeddings'' j))
              \<and> is_number (idx0 (idx0 (get ''embeddings'' j)))
        then Some (idx0 (get ''embeddings'' j))
      else if truthy (get ''embeddings'' j) \<and> is_number (idx0 (get ''embeddings'' j))
        then Some (get ''embeddings'' j)
      else if truthy (get ''data'' j) \<and> isArray (get ''data'' j)
              \<and> truthy (optget ''embedding'' (idx0 (get ''data'' j)))
        then Some (get ''embedding'' (idx0 (get ''data'' j)))
      else None)"

definition maxAttempts :: nat where
  "maxAttempts = 3"

text \<open>
  The inner loop \<open>for (let attempt = 1; attempt <= maxAttempts; attempt++)\<close> over the
  attempt numbers still to run. \<open>Some v\<close> is \<open>return v\<close>; \<open>None\<close> is the loop left by
  \<open>break\<close> or by running out of attempts.
\<close>

definition on_catch :: "nat \<Rightarrow> world \<Rightarrow> world option" where
  "on_catch attempt w = (if attempt = maxAttempts then None else Some (sleep (250 * attempt) w))"

fun store_attempts :: "request \<Rightarrow> nat list \<Rightarrow> world \<Rightarrow> jsval option \<times> world" where
  "store_attempts rq [] w = (None, w)"
| "store_attempts rq (attempt # rest) w =
     (case fetch rq w of
        (NetworkError, w1) \<Rightarrow>
          (case on_catch attempt w1 of None \<Rightarrow> (None, w1) | Some w2 \<Rightarrow> store_attempts rq rest w2)
      | (Response st t js, w1) \<Rightarrow>
          if \<not> ok st then
            (if st = 429 \<or> st \<ge> 500 then store_attempts rq rest (sleep (300 * attempt) w1)
             else (case on_catch attempt w1 of
                     None \<Rightarrow> (None, w1) | Some w2 \<Rightarrow> store_attempts rq rest w2))
          else
            (case (case js of None \<Rightarrow> None | Some j \<Rightarrow> store_normalize j) of
               Some v \<Rightarrow> (Some v, w1)
             | None \<Rightarrow>
                 (case on_catch attempt w1 of
                    None \<Rightarrow> (None, w1) | Some w2 \<Rightarrow> store_attempts rq rest w2)))"

text \<open>The outer loop \<open>for (const url of tryEndpoints)\<close> and the final \<open>throw\<close>.\<close>

fun store_endpoints ::
  "string option \<Rightarrow> jsval \<Rightarrow> url list \<Rightarrow> world \<Rightarrow> (js_error + jsval) \<times> world" where
  "store_endpoints key b [] w =
     (Inl (Error ''Failed to fetch embedding from Hugging Face with any endpoint''), w)"
| "store_endpoints key b (u # us) w =
     (case store_attempts (hf_request key u b) [1..<Suc maxAttempts] w of
        (Some v, w1) \<Rightarrow> (Inr v, w1)
      | (None, w1) \<Rightarrow> store_endpoints key b us w1)"

definition store_getHfEmbedding ::
  "string option \<Rightarrow> string \<Rightarrow> string \<Rightarrow> world \<Rightarrow> (js_error + jsval) \<times> world" where
  "store_getHfEmbedding key txt model w =
     (if key_missing key then (Inl (Error ''HF_API_KEY not set in environment''), w)
      else store_endpoints key (JObj [(''inputs'', JStr txt)])
             [feature_extraction model, HfPlain model] w)"

section \<open>Extractive question answering: tryExtractiveQA\<close>

record qa_result =
  answer :: string
  score :: jsval

fun the_string :: "jsval \<Rightarrow> string" where
  "the_string (JStr s) = s"
| "the_string v = []"

text \<open>
  Lines 72 to 78, on the parsed body. A TypeError raised by \<open>json[0].answer\<close> or
  \<open>json.answer\<close> lands in the \<open>catch\<close> of line 79, which returns \<open>null\<close>: \<open>None\<close> here.
\<close>

definition qa_parse :: "jsval \<Rightarrow> qa_result option" where
  "qa_parse j =
     (if isArray j \<and> nonempty_array j \<and> nullish (idx0 j) then None
      else if isArray j \<and> nonempty_array j \<and> is_string (get ''answer'' (idx0 j))
        then Some \<lparr>answer = the_string (get ''answer'' (idx0 j)), score = get ''score'' (idx0 j)\<rparr>
      else if nullish j then None
      else if truthy (get ''answer'' j) \<and> is_string (get ''answer'' j)
        then Some \<lparr>answer = the_string (get ''answer'' j), score = get ''score'' j\<rparr>
      else None)"

definition question_answering :: "string \<Rightarrow> url" where
  "question_answering model = HfPipeline model ''question-answering''"

definition tryExtractiveQA ::
  "string option \<Rightarrow> string \<Rightarrow> string \<Rightarrow> string \<Rightarrow> world
     \<Rightarrow> (js_error + qa_result option) \<times> world" where
  "tryExtractiveQA key question context model w =
     (if key_missing key then (Inl (Error ''HF_API_KEY not set''), w)
      else
        (case fetch (hf_request key (question_answering model)
                 (JObj [(''inputs'', JObj [(''question'', JStr question), (''context'', JStr context)])])) w of
           (NetworkError, w1) \<Rightarrow> (Inr None, w1)
         | (Response st t js, w1) \<Rightarrow>
             if \<not> ok st then (Inr None, w1)
             else (Inr (case js of None \<Rightarrow> None | Some j \<Rightarrow> qa_parse j), w1)))"

section \<open>Generation: tryGenerateWithFallbacks\<close>

text \<open>Lines 108 to 113, on the parsed body of the text-generation call; \<open>None\<close> is a
  TypeError, caught at line 117. \<open>slice(0, 4000)\<close> counts UTF-16 units where \<open>take 4000\<close>
  counts bytes: the same text for every dump of at most 4000 bytes and for every ASCII
  dump.\<close>

definition gen_text :: "jsval \<Rightarrow> string option" where
  "gen_text j =
     (if isArray j \<and> nonempty_array j \<and> nullish (idx0 j) then None
      else if isArray j \<and> nonempty_array j \<and> is_string (get ''generated_text'' (idx0 j))
        then Some (the_string (get ''generated_text'' (idx0 j)))
      else if nullish j then None
      else if truthy (get ''generated_text'' j) \<and> is_string (get ''generated_text'' j)
        then Some (the_string (get ''generated_text'' j))
      else if isArray j \<and> nonempty_array j \<and> is_string (get ''text'' (idx0 j))
        then Some (the_string (get ''text'' (idx0 j)))
      else Some (take 4000 (stringify j)))"

text \<open>Lines 135 to 140, on the parsed body of the text2text-generation call: the same
  tests, the first one repeated before the dump.\<close>

definition gen_text2 :: "jsval \<Rightarrow> string option" where
  "gen_text2 j =
     (if isArray j \<and> nonempty_array j \<and> nullish (idx0 j) then None
      else if isArray j \<and> nonempty_array j \<and> is_string (get ''generated_text'' (idx0 j))
        then Some (the_string (get ''generated_text'' (idx0 j)))
      else if nullish j then None
      else if truthy (get ''generated_text'' j) \<and> is_string (get ''generated_text'' j)
        then Some (the_string (get ''generated_text'' j))
      else if isArray j \<and> nonempty_array j \<and> is_string (get ''text'' (idx0 j))
        then Some (the_string (get ''text'' (idx0 j)))
      else if isArray j \<and> nonempty_array j \<and> is_string (get ''generated_text'' (idx0 j))
        then Some (the_string (get ''generated_text'' (idx0 j)))
      else Some (take 4000 (stringify j)))"

text \<open>One attempt, from the response to what the \<open>try\<close> block returns: \<open>Some t\<close> is
  \<open>return t\<close>, \<open>None\<close> is falling out of the block (a failed status, or the \<open>catch\<close>).\<close>

fun attempt :: "(jsval \<Rightarrow> string option) \<Rightarrow> fetch_result \<Rightarrow> string option" where
  "attempt extract NetworkError = None"
| "attempt extract (Response st t js) =
     (if ok st then (case js of None \<Rightarrow> None | Some j \<Rightarrow> extract j) else None)"

definition text_generation :: "string \<Rightarrow> url" where
  "text_generation model = HfPipeline model ''text-generation''"

definition text2text_generation :: "string \<Rightarrow> url" where
  "text2text_generation model = HfPipeline model ''text2text-generation''"

definition payload :: "string \<Rightarrow> jsval" where
  "payload prompt =
     JObj [(''inputs'', JStr prompt),
           (''parameters'', JObj [(''max_new_tokens'', JNum (Number ''256'')), (''temperature'', JNum (Number ''0'')),
                                  (''do_sample'', JBool False)])]"

definition payload2 :: "string \<Rightarrow> jsval" where
  "payload2 prompt =
     JObj [(''inputs'', JStr prompt),
           (''parameters'', JObj [(''max_new_tokens'', JNum (Number ''256'')), (''temperature'', JNum (Number ''0''))])]"

text \<open>The loop \<open>for (const model of models)\<close> and the \<open>throw\<close> after it.\<close>

fun generate_loop ::
  "string option \<Rightarrow> string \<Rightarrow> string list \<Rightarrow> world
     \<Rightarrow> (js_error + string) \<times> world" where
  "generate_loop key prompt [] w =
     (Inl (Error ''All generation models failed or were unavailable''), w)"
| "generate_loop key prompt (model # models) w =
     (case fetch (hf_request key (text_generation model) (payload prompt)) w of
        (r, w1) \<Rightarrow>
          (case attempt gen_text r of
             Some t \<Rightarrow> (Inr t, w1)
           | None \<Rightarrow>
               (case fetch (hf_request key (text2text_generation model) (payload2 prompt)) w1 of
                  (r2, w2) \<Rightarrow>
                    (case attempt gen_text2 r2 of
                       Some t \<Rightarrow> (Inr t, w2)
                     | None \<Rightarrow> generate_loop key prompt models w2))))"

definition tryGenerateWithFallbacks ::
  "string option \<Rightarrow> string \<Rightarrow> string list \<Rightarrow> world
     \<Rightarrow> (js_error + string) \<times> world" where
  "tryGenerateWithFallbacks key prompt models w =
     (if key_missing key then (Inl (Error ''HF_API_KEY not set''), w)
      else generate_loop key prompt models w)"

section \<open>The handler: POST of app/api/ask-question/route.ts\<close>

record response =
  status :: nat
  json :: jsval

definition nl :: string where
  "nl = [CHR 0x0A]"

definition systemPrefix :: string where
  "systemPrefix = ''You are an assistant that will use the provided context to answer the question concisely and accurately. Use only the provided context unless asked otherwise.''"

definition build_prompt :: "string \<Rightarrow> string \<Rightarrow> string" where
  "build_prompt context question =
     systemPrefix @ nl @ nl @ ''Context:'' @ nl
       @ (if context \<noteq> [] then context else ''(no context available)'')
       @ nl @ nl @ ''Question:'' @ nl @ question @ nl @ nl @ ''Answer:''"

definition genModels :: "string list" where
  "genModels = [''distilgpt2'', ''gpt2-medium'', ''facebook/opt-350m'']"

definition noContextMsg :: string where
  "noContextMsg = ''No relevant email content was found for that query.''"

text \<open>The string of line 245, byte for byte.\<close>

definition generalAnswerInfo :: string where
  "generalAnswerInfo =
     ''No matching email content found ''
       @ [CHR 0xC3, CHR 0xA2, CHR 0xE2, CHR 0x82, CHR 0xAC, CHR 0xE2, CHR 0x80, CHR 0x9D]
       @ '' returned a general answer.''"

text \<open>Line 190: \<open>(matchingSections || []).map((r) => r.section_content).filter(Boolean)\<close>.\<close>

definition rows_of :: "rpc_result \<Rightarrow> section_row list" where
  "rows_of r = (case rpc_data r of None \<Rightarrow> [] | Some rows \<Rightarrow> rows)"

fun content_truthy :: "string option \<Rightarrow> bool" where
  "content_truthy None = False"
| "content_truthy (Some c) = (c \<noteq> [])"

definition contextArr :: "section_row list \<Rightarrow> string list" where
  "contextArr rows = map the (filter content_truthy (map section_content rows))"

text \<open>Line 191.\<close>

definition context_of :: "section_row list \<Rightarrow> string" where
  "context_of rows = join (nl @ nl) (contextArr rows)"

text \<open>Lines 222 to 248: the prompt, the generation and the two successful answers.\<close>

definition post_generate ::
  "string option \<Rightarrow> string \<Rightarrow> string \<Rightarrow> world \<Rightarrow> response \<times> world" where
  "post_generate key question context w =
     (case tryGenerateWithFallbacks key (build_prompt context question) genModels w of
        (Inl genErr, w1) \<Rightarrow>
          (\<lparr>status = 502,
            json = JObj [(''error'', JStr ''Failed to generate answer: no available HF generation model.'')]\<rparr>, w1)
      | (Inr generated, w1) \<Rightarrow>
          if context = [] then
            (\<lparr>status = 200,
              json = JObj [(''answer'', JStr (trim generated)), (''info'', JStr generalAnswerInfo),
                           (''contextFound'', JBool False)]\<rparr>, w1)
          else
            (\<lparr>status = 200,
              json = JObj [(''answer'', JStr (trim generated)), (''contextFound'', JBool True),
                           (''source'', JStr ''generation'')]\<rparr>, w1))"

text \<open>Line 209: \<open>qaResult && qaResult.answer && qaResult.answer.trim()\<close>, then line 213.\<close>

fun usable :: "qa_result option \<Rightarrow> bool" where
  "usable None = False"
| "usable (Some r) = (answer r \<noteq> [] \<and> trim (answer r) \<noteq> [] \<and> length (trim (answer r)) > 0)"

text \<open>Lines 194 to 248: what the handler does once it has the context.\<close>

definition post_answer ::
  "string option \<Rightarrow> string \<Rightarrow> bool \<Rightarrow> string \<Rightarrow> world
     \<Rightarrow> response \<times> world" where
  "post_answer key question generateIfNoContext context w =
     (if context = [] \<and> \<not> generateIfNoContext then
        (\<lparr>status = 200,
          json = JObj [(''answer'', JNull), (''info'', JStr noContextMsg),
                       (''contextFound'', JBool False)]\<rparr>, w)
      else if context \<noteq> [] then
        (case tryExtractiveQA key question context ''deepset/roberta-base-squad2'' w of
           (Inl qaErr, w1) \<Rightarrow> post_generate key question context w1
         | (Inr qaResult, w1) \<Rightarrow>
             if usable qaResult then
               (\<lparr>status = 200,
                 json = JObj [(''answer'', JStr (trim (answer (the qaResult)))),
                              (''contextFound'', JBool True),
                              (''source'', JStr ''extractive-qa''),
                              (''score'', if nullish (score (the qaResult)) then JNull
                                          else score (the qaResult))]\<rparr>, w1)
             else post_generate key question context w1)
      else post_generate key question context w)"

definition fail500 :: "js_error \<Rightarrow> response" where
  "fail500 err =
     \<lparr>status = 500,
      json = JObj [(''error'', JStr (if message err \<noteq> [] then message err
                                      else ''Failed to generate response''))]\<rparr>"

text \<open>\<open>supabase.rpc("match_filtered_email_sections", ...)\<close> with \<open>match_count: 10\<close>; \<open>search\<close>
  is what the call resolves to.\<close>

definition rpc ::
  "rpc_result \<Rightarrow> jsval \<Rightarrow> number \<Rightarrow> jsval \<Rightarrow> world \<Rightarrow> rpc_result \<times> world" where
  "rpc search query_embedding match_threshold email_address w =
     (search, w\<lparr>trace := trace w @ [Rpc query_embedding match_threshold email_address]\<rparr>)"

fun the_number :: "jsval \<Rightarrow> number" where
  "the_number (JNum r) = r"
| "the_number v = Number ''0''"

text \<open>
  The handler. \<open>key\<close> is \<open>HF_API_KEY\<close>, \<open>search\<close> what the similarity search answers and
  \<open>request_json\<close> what \<open>await request.json()\<close> gives: the parsed body, or the error it
  throws. The \<open>console\<close> calls are left out.
\<close>

definition POST ::
  "string option \<Rightarrow> rpc_result \<Rightarrow> js_error + jsval \<Rightarrow> world \<Rightarrow> response \<times> world" where
  "POST key search request_json w =
     (case request_json of
        Inl err \<Rightarrow> (fail500 err, w)
      | Inr bodyJson \<Rightarrow>
          let q = (if truthy (optget ''question'' bodyJson) then optget ''question'' bodyJson
                   else JStr []);
              emailFilter = (if optget ''email_filter'' bodyJson = Undefined
                             then JStr ''brandon@gmail.com''
                             else optget ''email_filter'' bodyJson);
              generateIfNoContext = truthy (optget ''generateIfNoContext'' bodyJson);
              matchThreshold = (if is_number (optget ''match_threshold'' bodyJson)
                                then the_number (get ''match_threshold'' bodyJson)
                                else Number ''-0.3'')
          in
            if \<not> is_string q then (fail500 (TypeError (''(bodyJson?.question || '' @ [CHR 0x22, CHR 0x22]
                     @ '').trim is not a function'')), w)
            else if trim (the_string q) = [] then
              (\<lparr>status = 400, json = JObj [(''error'', JStr ''Missing question'')]\<rparr>, w)
            else
              (case ask_getHfEmbedding key (trim (the_string q))
                      ''sentence-transformers/all-MiniLM-L6-v2'' w of
                 (Inl err, w1) \<Rightarrow> (fail500 err, w1)
               | (Inr questionEmbedding, w1) \<Rightarrow>
                   (case rpc search questionEmbedding matchThreshold emailFilter w1 of
                      (res, w2) \<Rightarrow>
                        (case rpc_err res of
                           Some error \<Rightarrow>
                             (fail500 (Error (if rpc_message error \<noteq> [] then rpc_message error
                                              else ''Supabase RPC failed'')), w2)
                         | None \<Rightarrow>
                             post_answer key (trim (the_string q)) generateIfNoContext
                               (context_of (rows_of res)) w2))))"

section \<open>Vocabulary of the properties\<close>

text \<open>A flat numeric vector, as a response carries it.\<close>

definition vec :: "number list \<Rightarrow> jsval" where
  "vec ns = JArr (map JNum ns)"

text \<open>The error of line 44.\<close>

definition shape_error :: js_error where
  "shape_error = Error ''Unexpected HF embedding response shape''"

fun numeric_vector :: "jsval \<Rightarrow> bool" where
  "numeric_vector (JArr xs) = list_all is_number xs"
| "numeric_vector v = False"

text \<open>The calls of the generation loop if it runs to its end: for each model in turn, the
  text-generation call and then the text2text-generation call.\<close>

fun gen_requests :: "string option \<Rightarrow> string \<Rightarrow> string list \<Rightarrow> request list" where
  "gen_requests key prompt [] = []"
| "gen_requests key prompt (model # models) =
     hf_request key (text_generation model) (payload prompt)
       # hf_request key (text2text_generation model) (payload2 prompt)
       # gen_requests key prompt models"

text \<open>The response to the \<open>i\<close>-th call from now, and what the \<open>try\<close> block of that call
  makes of it (even calls are text-generation calls, odd ones text2text-generation).\<close>

definition response_at :: "fetch_result list \<Rightarrow> nat \<Rightarrow> fetch_result" where
  "response_at rs i = (if i < length rs then rs ! i else NetworkError)"

definition outcome :: "nat \<Rightarrow> fetch_result \<Rightarrow> string option" where
  "outcome i r = attempt (if even i then gen_text else gen_text2) r"

text \<open>Calls in the trace: to a generation pipeline, to the question-answering pipeline;
  and the calls one run adds to the trace.\<close>

fun is_gen_call :: "event \<Rightarrow> bool" where
  "is_gen_call (Fetch rq) =
     (case url rq of
        HfPipeline model task \<Rightarrow> task = ''text-generation'' \<or> task = ''text2text-generation''
      | HfPlain model \<Rightarrow> False)"
| "is_gen_call e = False"

fun is_qa_call :: "event \<Rightarrow> bool" where
  "is_qa_call (Fetch rq) =
     (case url rq of
        HfPipeline model task \<Rightarrow> task = ''question-answering''
      | HfPlain model \<Rightarrow> False)"
| "is_qa_call e = False"

definition new_calls :: "world \<Rightarrow> world \<Rightarrow> event list" where
  "new_calls w w' = drop (length (trace w)) (trace w')"

text \<open>What the handler reads in the request body (lines 160 to 164), when the question
  is a string.\<close>

definition question_of :: "jsval \<Rightarrow> string" where
  "question_of b = trim (the_string (optget ''question'' b))"

definition email_filter_of :: "jsval \<Rightarrow> jsval" where
  "email_filter_of b =
     (if optget ''email_filter'' b = Undefined then JStr ''brandon@gmail.com''
      else optget ''email_filter'' b)"

definition threshold_of :: "jsval \<Rightarrow> number" where
  "threshold_of b =
     (if is_number (optget ''match_threshold'' b) then the_number (get ''match_threshold'' b)
      else Number ''-0.3'')"

text \<open>The two embedding requests: \<open>urlPrimary\<close> and \<open>urlFallback\<close>.\<close>

definition primary :: "string option \<Rightarrow> string \<Rightarrow> string \<Rightarrow> request" where
  "primary key txt model = hf_request key (feature_extraction model) (JObj [(''inputs'', JStr txt)])"

definition fallback :: "string option \<Rightarrow> string \<Rightarrow> string \<Rightarrow> request" where
  "fallback key txt model = hf_request key (HfPlain model) (JObj [(''inputs'', JStr txt)])"

section \<open>Concrete runs\<close>

text \<open>A response whose body is the JSON text of \<open>j\<close>.\<close>

definition json_response :: "nat \<Rightarrow> jsval \<Rightarrow> fetch_result" where
  "json_response st j = Response st (stringify j) (Some j)"

definition key0 :: "string option" where
  "key0 = Some ''hf_secret''"

definition minilm :: string where
  "minilm = ''sentence-transformers/all-MiniLM-L6-v2''"

definition v2 :: "number list" where
  "v2 = [Number ''0.25'', Number ''-1'']"

definition r200 :: fetch_result where
  "r200 = json_response 200 (vec v2)"

definition r404 :: fetch_result where
  "r404 = Response 404 ''Not Found'' None"

definition r500 :: fetch_result where
  "r500 = Response 500 ''Internal Server Error'' None"

definition r200_odd :: fetch_result where
  "r200_odd = json_response 200 (JObj [])"

definition obj_c :: "(string \<times> jsval) list" where
  "obj_c = [(''embeddings'', vec [Number ''7'']), (''embedding'', vec v2)]"

definition obj_d :: "(string \<times> jsval) list" where
  "obj_d = [(''data'', JArr [JObj [(''embedding'', vec [Number ''7''])]]), (''embeddings'', JArr [vec v2])]"

definition obj_e :: "(string \<times> jsval) list" where
  "obj_e = [(''data'', JArr [JObj [(''embedding'', vec v2)]])]"

definition loose_e :: jsval where
  "loose_e = JObj [(''data'', JArr [JObj [(''embedding'', JStr ''hello'')]])]"

definition gen_ok :: fetch_result where
  "gen_ok = json_response 200 (JArr [JObj [(''generated_text'', JStr ''Not yet.'')]])"

definition two_models :: "string list" where
  "two_models = [''distilgpt2'', ''gpt2-medium'']"

definition ask_about_payment :: jsval where
  "ask_about_payment = JObj [(''question'', JStr '' Has Brandon paid? '')]"

definition ask_anyway :: jsval where
  "ask_anyway =
     JObj [(''question'', JStr ''Who is Brandon?''), (''generateIfNoContext'', JBool True)]"

definition invoice_rows :: "section_row list" where
  "invoice_rows =
     [\<lparr>section_content = Some ''Invoice due.'', section_order = 2, similarity = Number ''0.9''\<rparr>,
      \<lparr>section_content = Some ''Thanks'', section_order = 1, similarity = Number ''0.5''\<rparr>]"

definition blank_rows :: "section_row list" where
  "blank_rows =
     [\<lparr>section_content = Some [], section_order = 1, similarity = Number ''0.4''\<rparr>,
      \<lparr>section_content = None, section_order = 2, similarity = Number ''0.3''\<rparr>]"

definition found :: "section_row list \<Rightarrow> rpc_result" where
  "found rows = \<lparr>rpc_data = Some rows, rpc_err = None\<rparr>"

definition qa_ok :: fetch_result where
  "qa_ok = json_response 200
     (JObj [(''answer'', JStr ''No.''), (''score'', JNum (Number ''0.91''))])"

text \<open>U+00A0, and a string of white space only: SP, U+00A0, U+2028, U+FEFF, U+3000, TAB.\<close>

definition nbsp :: string where
  "nbsp = [CHR 0xC2, CHR 0xA0]"

definition unicode_blank :: string where
  "unicode_blank =
     '' '' @ nbsp @ [CHR 0xE2, CHR 0x80, CHR 0xA8] @ [CHR 0xEF, CHR 0xBB, CHR 0xBF]
       @ [CHR 0xE3, CHR 0x80, CHR 0x80] @ [CHR 0x09]"

definition ask_blank :: jsval where
  "ask_blank = JObj [(''question'', JStr nbsp)]"

definition qa_blank :: fetch_result where
  "qa_blank = json_response 200 (JObj [(''answer'', JStr unicode_blank)])"

definition gen_empty :: fetch_result where
  "gen_empty = json_response 200 (JArr [JObj [(''generated_text'', JStr [])]])"

definition gen_empty_object :: fetch_result where
  "gen_empty_object = json_response 200 (JObj [(''generated_text'', JStr [])])"

definition start :: "fetch_result list \<Rightarrow> world" where
  "start rs = \<lparr>responses = rs, trace = []\<rparr>"

text \<open>\<open>{"generated_text":""}\<close>\<close>

definition empty_text_dump :: string where
  "empty_text_dump = ''{'' @ [CHR 0x22] @ ''generated_text'' @ [CHR 0x22] @ '':''
     @ [CHR 0x22, CHR 0x22] @ ''}''"

section \<open>Auxiliary facts\<close>

lemmas trim_eval = trim_def trimStart_def trimEnd_def ws1_def ws2_def ws3_def

lemma fetch_eq:
  "fetch rq w = (response_at (responses w) 0,
                 w\<lparr>responses := drop 1 (responses w), trace := trace w @ [Fetch rq]\<rparr>)"
  by (cases "responses w") (simp_all add: fetch_def response_at_def)

lemma response_at_drop: "response_at (drop n rs) i = response_at rs (n + i)"
  by (auto simp add: response_at_def)

lemma isArray_truthy: "isArray v \<Longrightarrow> truthy v"
  by (cases v) simp_all

lemma number_not_array: "is_number v \<Longrightarrow> \<not> isArray v"
  by (cases v) simp_all

lemma vec_shape [simp]: "isArray (vec ns)" "\<not> nullish (vec ns)" "truthy (vec ns)"
  by (simp_all add: vec_def)

lemma idx0_vec: "ns \<noteq> [] \<Longrightarrow> is_number (idx0 (vec ns))"
  by (cases ns) (simp_all add: vec_def)

lemma shape_a: "ns \<noteq> [] \<Longrightarrow> ask_normalize (vec ns) = Inr (vec ns)"
  by (simp add: ask_normalize_def idx0_vec)

lemma shape_b: "ns \<noteq> [] \<Longrightarrow> ask_normalize (JArr (vec ns # others)) = Inr (vec ns)"
  by (simp add: ask_normalize_def idx0_vec) (simp add: vec_def)

lemma shape_c: "get ''embedding'' (JObj kvs) = vec ns \<Longrightarrow> ask_normalize (JObj kvs) = Inr (vec ns)"
  by (simp add: ask_normalize_def del: get.simps)

lemma shape_d_flat:
  "ns \<noteq> [] \<Longrightarrow> \<not> isArray (get ''embedding'' (JObj kvs)) \<Longrightarrow>
   get ''embeddings'' (JObj kvs) = vec ns \<Longrightarrow> ask_normalize (JObj kvs) = Inr (vec ns)"
  by (simp add: ask_normalize_def idx0_vec number_not_array del: get.simps)

lemma shape_d_nested:
  "ns \<noteq> [] \<Longrightarrow> \<not> isArray (get ''embedding'' (JObj kvs)) \<Longrightarrow>
   get ''embeddings'' (JObj kvs) = JArr (vec ns # others) \<Longrightarrow> ask_normalize (JObj kvs) = Inr (vec ns)"
  by (simp add: ask_normalize_def idx0_vec del: get.simps)

lemma shape_e:
  "get ''embedding'' (JObj kvs) = Undefined \<Longrightarrow> get ''embeddings'' (JObj kvs) = Undefined \<Longrightarrow>
   get ''data'' (JObj kvs) = JArr (JObj d # others) \<Longrightarrow> get ''embedding'' (JObj d) = vec ns \<Longrightarrow>
   ask_normalize (JObj kvs) = Inr (vec ns)"
  by (simp add: ask_normalize_def optget_def del: get.simps)

lemma store_ask: "store_normalize j = (case ask_normalize j of Inl e \<Rightarrow> None | Inr v \<Rightarrow> Some v)"
proof -
  have "isArray j \<and> is_number (idx0 j) \<Longrightarrow> nonempty_array j"
    by (cases j rule: nonempty_array.cases) simp_all
  then show ?thesis
    by (auto simp add: store_normalize_def ask_normalize_def)
qed

lemma attempts_list: "[1..<Suc maxAttempts] = [1, 2, 3]"
  by (simp add: maxAttempts_def upt_rec)

lemma outcome_simps:
  "outcome 0 r = attempt gen_text r"
  "outcome (Suc 0) r = attempt gen_text2 r"
  "outcome (Suc (Suc i)) r = outcome i r"
  by (simp_all add: outcome_def)

lemma generate_loop_exhausted:
  "(\<forall>i < 2 * length models. outcome i (response_at (responses w) i) = None) \<Longrightarrow>
   generate_loop key prompt models w =
     (Inl (Error ''All generation models failed or were unavailable''),
      w\<lparr>responses := drop (2 * length models) (responses w),
        trace := trace w @ map Fetch (gen_requests key prompt models)\<rparr>)"
proof (induction models arbitrary: w)
  case Nil
  then show ?case by simp
next
  case (Cons model models)
  let ?w1 = "w\<lparr>responses := drop 1 (responses w),
               trace := trace w @ [Fetch (hf_request key (text_generation model) (payload prompt))]\<rparr>"
  let ?w2 = "?w1\<lparr>responses := drop 1 (responses ?w1),
               trace := trace ?w1 @ [Fetch (hf_request key (text2text_generation model) (payload2 prompt))]\<rparr>"
  from Cons.prems have a: "attempt gen_text (response_at (responses w) 0) = None"
    using outcome_simps(1) by (metis length_Cons mult_Suc_right zero_less_Suc add_2_eq_Suc)
  from Cons.prems have "outcome (Suc 0) (response_at (responses w) (Suc 0)) = None"
    by simp
  then have b: "attempt gen_text2 (response_at (responses ?w1) 0) = None"
    by (simp add: outcome_simps response_at_drop)
  have "\<forall>i < 2 * length models. outcome i (response_at (responses ?w2) i) = None"
  proof (intro allI impI)
    fix i assume "i < 2 * length models"
    then have "outcome (Suc (Suc i)) (response_at (responses w) (Suc (Suc i))) = None"
      using Cons.prems by simp
    then show "outcome i (response_at (responses ?w2) i) = None"
      by (simp add: outcome_simps response_at_drop)
  qed
  then have "generate_loop key prompt models ?w2 =
     (Inl (Error ''All generation models failed or were unavailable''),
      ?w2\<lparr>responses := drop (2 * length models) (responses ?w2),
        trace := trace ?w2 @ map Fetch (gen_requests key prompt models)\<rparr>)"
    by (rule Cons.IH)
  with a b show ?case
    by (simp add: fetch_eq)
qed

lemma generate_loop_first_success:
  "k < 2 * length models \<Longrightarrow> outcome k (response_at (responses w) k) = Some t \<Longrightarrow>
   (\<forall>i < k. outcome i (response_at (responses w) i) = None) \<Longrightarrow>
   generate_loop key prompt models w =
     (Inr t,
      w\<lparr>responses := drop (Suc k) (responses w),
        trace := trace w @ map Fetch (take (Suc k) (gen_requests key prompt models))\<rparr>)"
proof (induction models arbitrary: w k)
  case Nil
  then show ?case by simp
next
  case (Cons model models)
  let ?w1 = "w\<lparr>responses := drop 1 (responses w),
               trace := trace w @ [Fetch (hf_request key (text_generation model) (payload prompt))]\<rparr>"
  let ?w2 = "?w1\<lparr>responses := drop 1 (responses ?w1),
               trace := trace ?w1 @ [Fetch (hf_request key (text2text_generation model) (payload2 prompt))]\<rparr>"
  consider (zero) "k = 0" | (one) "k = Suc 0" | (later) j where "k = Suc (Suc j)"
    by (metis not0_implies_Suc)
  then show ?case
  proof cases
    case zero
    with Cons.prems(2) show ?thesis
      by (simp add: fetch_eq outcome_simps)
  next
    case one
    with Cons.prems(3) have a: "attempt gen_text (response_at (responses w) 0) = None"
      by (simp add: outcome_simps)
    from one Cons.prems(2) have b: "attempt gen_text2 (response_at (responses ?w1) 0) = Some t"
      by (simp add: outcome_simps response_at_drop)
    from a b one show ?thesis
      by (simp add: fetch_eq)
  next
    case later
    from later Cons.prems(3) have "outcome 0 (response_at (responses w) 0) = None"
      by simp
    then have a: "attempt gen_text (response_at (responses w) 0) = None"
      by (simp add: outcome_simps)
    from later Cons.prems(3) have "outcome (Suc 0) (response_at (responses w) (Suc 0)) = None"
      by simp
    then have b: "attempt gen_text2 (response_at (responses ?w1) 0) = None"
      by (simp add: outcome_simps response_at_drop)
    have j: "j < 2 * length models"
      using later Cons.prems(1) by simp
    have s: "outcome j (response_at (responses ?w2) j) = Some t"
      using later Cons.prems(2) by (simp add: outcome_simps response_at_drop)
    have n: "\<forall>i < j. outcome i (response_at (responses ?w2) i) = None"
    proof (intro allI impI)
      fix i assume "i < j"
      then have "outcome (Suc (Suc i)) (response_at (responses w) (Suc (Suc i))) = None"
        using later Cons.prems(3) by simp
      then show "outcome i (response_at (responses ?w2) i) = None"
        by (simp add: outcome_simps response_at_drop)
    qed
    have "generate_loop key prompt models ?w2 =
       (Inr t, ?w2\<lparr>responses := drop (Suc j) (responses ?w2),
                  trace := trace ?w2 @ map Fetch (take (Suc j) (gen_requests key prompt models))\<rparr>)"
      using j s n by (rule Cons.IH)
    with a b later show ?thesis
      by (simp add: fetch_eq)
  qed
qed

lemma tryGenerate_loop: "\<not> key_missing key \<Longrightarrow>
  tryGenerateWithFallbacks key prompt models w = generate_loop key prompt models w"
  by (simp add: tryGenerateWithFallbacks_def)

lemma post_generate_error:
  "tryGenerateWithFallbacks key (build_prompt context question) genModels w = (Inl e, w1) \<Longrightarrow>
   post_generate key question context w =
     (\<lparr>status = 502,
       json = JObj [(''error'', JStr ''Failed to generate answer: no available HF generation model.'')]\<rparr>, w1)"
  by (simp add: post_generate_def)

lemma contextArr_append: "contextArr (xs @ ys) = contextArr xs @ contextArr ys"
  by (simp add: contextArr_def)

lemma contextArr_reindex:
  "contextArr (map ((!) rows) p) =
     map (\<lambda>i. the (section_content (rows ! i)))
       (filter (\<lambda>i. content_truthy (section_content (rows ! i))) p)"
  by (simp add: contextArr_def filter_map comp_def)

lemma contextArr_full:
  "\<forall>r \<in> set rows. content_truthy (section_content r) \<Longrightarrow>
   contextArr rows = map (\<lambda>r. the (section_content r)) rows"
  by (induction rows) (simp_all add: contextArr_def)

lemma contextArr_permuted:
  assumes "\<forall>r \<in> set rows. content_truthy (section_content r)" and "\<forall>i \<in> set p. i < length rows"
  shows "contextArr (map ((!) rows) p) = map ((!) (contextArr rows)) p"
proof -
  have "\<forall>r \<in> set (map ((!) rows) p). content_truthy (section_content r)"
    using assms by simp
  then have "contextArr (map ((!) rows) p) = map (\<lambda>r. the (section_content r)) (map ((!) rows) p)"
    by (rule contextArr_full)
  also have "\<dots> = map ((!) (contextArr rows)) p"
    using assms by (simp add: contextArr_full)
  finally show ?thesis .
qed

lemma contextArr_other_fields:
  "contextArr (map (\<lambda>r. r\<lparr>section_order := f r, similarity := g r\<rparr>) rows) = contextArr rows"
  by (simp add: contextArr_def comp_def)

lemma contextArr_empty:
  "(\<forall>r \<in> set rows. \<not> content_truthy (section_content r)) \<Longrightarrow> contextArr rows = []"
  by (induction rows) (simp_all add: contextArr_def)

lemma ask_embedding_trace:
  "ask_getHfEmbedding key t m w = (Inr v, w1) \<Longrightarrow>
     \<not> key_missing key \<and> trace w1 = trace w @ [Fetch (primary key t m)]"
  by (auto simp add: ask_getHfEmbedding_def fetch_eq primary_def
      split: if_splits fetch_result.splits option.splits)

lemma qa_trace:
  "\<not> key_missing key \<Longrightarrow> tryExtractiveQA key q c m w = (r, w1) \<Longrightarrow>
     trace w1 = trace w @ [Fetch (hf_request key (question_answering m)
        (JObj [(''inputs'', JObj [(''question'', JStr q), (''context'', JStr c)])]))]"
  by (auto simp add: tryExtractiveQA_def fetch_eq
      split: if_splits fetch_result.splits option.splits)

lemma trim_nonempty: "trim s \<noteq> [] \<Longrightarrow> s \<noteq> []"
  by (auto simp add: trim_def trimStart_def trimEnd_def)

lemma the_string_nonempty: "the_string v \<noteq> [] \<Longrightarrow> is_string v \<and> truthy v \<and> v = JStr (the_string v)"
  by (cases v) simp_all

lemma question_of_nonempty:
  "question_of b \<noteq> [] \<Longrightarrow>
     is_string (optget ''question'' b) \<and> truthy (optget ''question'' b)"
  using the_string_nonempty [of "optget ''question'' b"] trim_nonempty
  by (auto simp add: question_of_def)

lemma url_hf_request [simp]: "url (hf_request key u b) = u"
  by (simp add: hf_request_def)

lemma is_gen_call_requests [simp]:
  "is_gen_call (Fetch (hf_request key (text_generation m) b))"
  "is_gen_call (Fetch (hf_request key (text2text_generation m) b))"
  "\<not> is_gen_call (Fetch (hf_request key (question_answering m) b))"
  "\<not> is_gen_call (Fetch (primary key t m))"
  "\<not> is_gen_call (Rpc e thr flt)"
  by (simp_all add: text_generation_def text2text_generation_def
      question_answering_def primary_def feature_extraction_def)

declare is_gen_call.simps [simp del]

lemma is_qa_call_requests [simp]:
  "\<not> is_qa_call (Fetch (hf_request key (text_generation m) b))"
  "\<not> is_qa_call (Fetch (hf_request key (text2text_generation m) b))"
  "is_qa_call (Fetch (hf_request key (question_answering m) b))"
  "\<not> is_qa_call (Fetch (primary key t m))"
  "\<not> is_qa_call (Rpc e thr flt)"
  by (simp_all add: text_generation_def text2text_generation_def
      question_answering_def primary_def feature_extraction_def)

declare is_qa_call.simps [simp del]

lemma generate_loop_trace:
  "generate_loop key p models w = (r, w1) \<Longrightarrow>
     \<exists>es. trace w1 = trace w @ es \<and> list_all is_gen_call es \<and> (models \<noteq> [] \<longrightarrow> es \<noteq> [])"
proof (induction models arbitrary: w)
  case Nil
  then show ?case by simp
next
  case (Cons model models)
  let ?a = "Fetch (hf_request key (text_generation model) (payload p))"
  let ?b = "Fetch (hf_request key (text2text_generation model) (payload2 p))"
  let ?w1 = "w\<lparr>responses := drop 1 (responses w), trace := trace w @ [?a]\<rparr>"
  let ?w2 = "?w1\<lparr>responses := drop 1 (responses ?w1), trace := trace ?w1 @ [?b]\<rparr>"
  show ?case
  proof (cases "attempt gen_text (response_at (responses w) 0)")
    case (Some t)
    with Cons.prems have "trace w1 = trace w @ [?a]"
      by (auto simp add: fetch_eq)
    then show ?thesis by simp
  next
    case None
    note a = this
    show ?thesis
    proof (cases "attempt gen_text2 (response_at (responses ?w1) 0)")
      case (Some t)
      with a Cons.prems have "trace w1 = trace w @ [?a, ?b]"
        by (auto simp add: fetch_eq)
      then show ?thesis by simp
    next
      case None
      with a Cons.prems have "generate_loop key p models ?w2 = (r, w1)"
        by (simp add: fetch_eq)
      from Cons.IH [OF this] obtain es where "trace w1 = trace ?w2 @ es" "list_all is_gen_call es"
        by blast
      then have "trace w1 = trace w @ (?a # ?b # es) \<and> list_all is_gen_call (?a # ?b # es)"
        by simp
      then show ?thesis by blast
    qed
  qed
qed

lemma post_generate_200:
  assumes "post_generate key q c w = (resp, w')" and "status resp = 200"
  shows "\<not> key_missing key
     \<and> (\<exists>es. trace w' = trace w @ es \<and> list_all is_gen_call es \<and> es \<noteq> [])
     \<and> (\<exists>generated.
          json resp =
            (if c = [] then
               JObj [(''answer'', JStr (trim generated)), (''info'', JStr generalAnswerInfo),
                     (''contextFound'', JBool False)]
             else
               JObj [(''answer'', JStr (trim generated)), (''contextFound'', JBool True),
                     (''source'', JStr ''generation'')]))"
proof -
  obtain r w1 where g: "tryGenerateWithFallbacks key (build_prompt c q) genModels w = (r, w1)"
    by (cases "tryGenerateWithFallbacks key (build_prompt c q) genModels w")
  from assms g obtain generated where r: "r = Inr generated"
    by (cases r) (auto simp add: post_generate_def)
  from g r have k: "\<not> key_missing key"
    by (auto simp add: tryGenerateWithFallbacks_def split: if_splits)
  with g have "generate_loop key (build_prompt c q) genModels w = (r, w1)"
    by (simp add: tryGenerateWithFallbacks_def)
  from generate_loop_trace [OF this]
  obtain es where es: "trace w1 = trace w @ es" "list_all is_gen_call es" "es \<noteq> []"
    by (auto simp add: genModels_def)
  from assms g r have "w' = w1"
    by (auto simp add: post_generate_def split: if_splits)
  with es have t: "\<exists>es. trace w' = trace w @ es \<and> list_all is_gen_call es \<and> es \<noteq> []"
    by blast
  from assms g r have "json resp =
            (if c = [] then
               JObj [(''answer'', JStr (trim generated)), (''info'', JStr generalAnswerInfo),
                     (''contextFound'', JBool False)]
             else
               JObj [(''answer'', JStr (trim generated)), (''contextFound'', JBool True),
                     (''source'', JStr ''generation'')])"
    by (auto simp add: post_generate_def split: if_splits)
  with k t show ?thesis by blast
qed

lemma trim_nil [simp]: "trim [] = []"
  by (simp add: trim_def trimStart_def trimEnd_def)

lemma POST_bad_question:
  "question_of b = [] \<Longrightarrow> status (fst (POST key search (Inr b) w)) \<noteq> 200"
proof (cases "truthy (optget ''question'' b)")
  case True
  assume "question_of b = []"
  with True show ?thesis
    by (cases "is_string (optget ''question'' b)")
       (simp_all add: POST_def Let_def fail500_def question_of_def)
next
  case False
  then show ?thesis
    by (simp add: POST_def Let_def)
qed

lemma POST_embedding_error:
  "ask_getHfEmbedding key (question_of b) ''sentence-transformers/all-MiniLM-L6-v2'' w
     = (Inl err, w1) \<Longrightarrow> status (fst (POST key search (Inr b) w)) \<noteq> 200"
proof (cases "question_of b = []")
  case True
  then show ?thesis by (rule POST_bad_question)
next
  case False
  assume "ask_getHfEmbedding key (question_of b) ''sentence-transformers/all-MiniLM-L6-v2'' w
     = (Inl err, w1)"
  with False question_of_nonempty [OF False] show ?thesis
    by (simp add: POST_def Let_def question_of_def fail500_def)
qed

lemma POST_search_error:
  assumes "ask_getHfEmbedding key (question_of b) ''sentence-transformers/all-MiniLM-L6-v2'' w
     = (Inr emb, w1)" and "rpc_err search = Some err"
  shows "status (fst (POST key search (Inr b) w)) \<noteq> 200"
proof (cases "question_of b = []")
  case True
  then show ?thesis by (rule POST_bad_question)
next
  case False
  with assms question_of_nonempty [OF False] show ?thesis
    by (simp add: POST_def Let_def question_of_def fail500_def rpc_def)
qed

lemma POST_reaches_answer:
  assumes "question_of b \<noteq> []"
    and "ask_getHfEmbedding key (question_of b) ''sentence-transformers/all-MiniLM-L6-v2'' w
          = (Inr emb, w1)"
    and "rpc_err search = None"
  shows "POST key search (Inr b) w =
     post_answer key (question_of b) (truthy (optget ''generateIfNoContext'' b))
          (context_of (rows_of search))
          (w1\<lparr>trace := trace w1 @ [Rpc emb (threshold_of b) (email_filter_of b)]\<rparr>)"
  using assms(2,3) question_of_nonempty [OF assms(1)] assms(1)
  by (simp add: POST_def Let_def rpc_def question_of_def threshold_of_def email_filter_of_def)

lemma POST_200:
  assumes "POST key search rq w = (resp, w')" and "status resp = 200"
  shows "\<exists>b emb w1.
     rq = Inr b \<and> question_of b \<noteq> []
     \<and> ask_getHfEmbedding key (question_of b) ''sentence-transformers/all-MiniLM-L6-v2'' w
          = (Inr emb, w1)
     \<and> rpc_err search = None
     \<and> post_answer key (question_of b) (truthy (optget ''generateIfNoContext'' b))
          (context_of (rows_of search))
          (w1\<lparr>trace := trace w1 @ [Rpc emb (threshold_of b) (email_filter_of b)]\<rparr>) = (resp, w')"
proof -
  from assms obtain b where b: "rq = Inr b"
    by (cases rq) (auto simp add: POST_def fail500_def)
  from assms b have s: "status (fst (POST key search (Inr b) w)) = 200"
    by simp
  then have q: "question_of b \<noteq> []"
    using POST_bad_question by blast
  obtain r w1 where e: "ask_getHfEmbedding key (question_of b)
      ''sentence-transformers/all-MiniLM-L6-v2'' w = (r, w1)"
    by (cases "ask_getHfEmbedding key (question_of b) ''sentence-transformers/all-MiniLM-L6-v2'' w")
  from s e obtain emb where r: "r = Inr emb"
    using POST_embedding_error by (cases r) blast+
  from s e r have n: "rpc_err search = None"
    using POST_search_error by (cases "rpc_err search") blast+
  from POST_reaches_answer [OF q e [unfolded r] n] assms b
  show ?thesis using q e r n by auto
qed

lemma run_embedding:
  "ask_getHfEmbedding key0 q ''sentence-transformers/all-MiniLM-L6-v2'' (start (r200 # rs))
     = (Inr (vec v2), \<lparr>responses = rs, trace = [Fetch (primary key0 q ''sentence-transformers/all-MiniLM-L6-v2'')]\<rparr>)"
  by (simp add: ask_getHfEmbedding_def key0_def start_def r200_def json_response_def fetch_def ok_def
      ask_normalize_def vec_def v2_def primary_def)

lemma trim_example: "trim '' Has Brandon paid? '' = ''Has Brandon paid?''"
  by (simp add: trim_eval)

lemma post_generate_source:
  "get ''source'' (json (fst (post_generate key q c w))) \<noteq> JStr ''extractive-qa''"
  by (simp add: post_generate_def split: prod.split sum.split)

lemma context_invoice: "context_of invoice_rows = ''Invoice due.'' @ nl @ nl @ ''Thanks''"
  by (simp add: context_of_def contextArr_def invoice_rows_def)

lemma context_of_full:
  "\<forall>r \<in> set rows. content_truthy (section_content r) \<Longrightarrow>
   context_of rows = join (nl @ nl) (map (\<lambda>r. the (section_content r)) rows)"
  by (simp add: context_of_def contextArr_full)

lemma context_of_drop:
  "section_content r = None \<or> section_content r = Some [] \<Longrightarrow>
   context_of (xs @ r # ys) = context_of (xs @ ys)"
  by (auto simp add: context_of_def contextArr_def)

lemma context_of_blank:
  "\<forall>r \<in> set rows. section_content r = None \<or> section_content r = Some [] \<Longrightarrow>
   context_of rows = []"
proof -
  assume "\<forall>r \<in> set rows. section_content r = None \<or> section_content r = Some []"
  then have "\<forall>r \<in> set rows. \<not> content_truthy (section_content r)"
    by auto
  then have "contextArr rows = []"
    by (rule contextArr_empty)
  then show ?thesis
    by (simp add: context_of_def)
qed

lemma POST_context_only:
  "rpc_err s1 = rpc_err s2 \<Longrightarrow> context_of (rows_of s1) = context_of (rows_of s2) \<Longrightarrow>
   POST key s1 rq w = POST key s2 rq w"
  by (simp add: POST_def rpc_def Let_def split: sum.splits prod.splits option.splits)

lemma post_answer_no_context:
  "status (fst (post_answer key q g [] w)) = 200 \<Longrightarrow>
   get ''contextFound'' (json (fst (post_answer key q g [] w))) = JBool False"
  by (simp add: post_answer_def post_generate_def split: if_splits prod.splits sum.splits)

lemma POST_no_context:
  assumes "context_of (rows_of search) = []" and "status (fst (POST key search rq w)) = 200"
  shows "get ''contextFound'' (json (fst (POST key search rq w))) = JBool False"
proof -
  obtain resp w' where p: "POST key search rq w = (resp, w')"
    by (cases "POST key search rq w")
  with assms(2) have "status resp = 200" by simp
  from POST_200 [OF p this] obtain b emb w1 where
    "post_answer key (question_of b) (truthy (optget ''generateIfNoContext'' b))
          (context_of (rows_of search))
          (w1\<lparr>trace := trace w1 @ [Rpc emb (threshold_of b) (email_filter_of b)]\<rparr>) = (resp, w')"
    by blast
  with assms p post_answer_no_context [of key "question_of b"
      "truthy (optget ''generateIfNoContext'' b)"
      "w1\<lparr>trace := trace w1 @ [Rpc emb (threshold_of b) (email_filter_of b)]\<rparr>"]
  show ?thesis by simp
qed

lemma list_all_ex: "list_all P es \<Longrightarrow> es \<noteq> [] \<Longrightarrow> list_ex P es"
  by (cases es) simp_all

lemma post_generate_calls:
  assumes "post_generate key q c w = (resp, w')" and "status resp = 200"
  shows "\<exists>es. trace w' = trace w @ es \<and> list_ex is_gen_call es"
  using post_generate_200 [OF assms] list_all_ex by blast

lemma post_generate_json:
  assumes "post_generate key q c w = (resp, w')" and "status resp = 200"
  shows "(c = [] \<longrightarrow> get ''source'' (json resp) = Undefined
            \<and> get ''contextFound'' (json resp) = JBool False
            \<and> get ''info'' (json resp) = JStr generalAnswerInfo)
       \<and> (c \<noteq> [] \<longrightarrow> get ''source'' (json resp) = JStr ''generation''
            \<and> get ''contextFound'' (json resp) = JBool True)"
  using post_generate_200 [OF assms] by auto

lemma post_answer_200:
  assumes p: "post_answer key q g c w = (resp, w')" and s: "status resp = 200"
    and k: "\<not> key_missing key"
  shows "(c \<noteq> [] \<and> get ''source'' (json resp) = JStr ''extractive-qa''
            \<and> get ''contextFound'' (json resp) = JBool True
            \<and> (\<exists>es. trace w' = trace w @ es \<and> \<not> list_ex is_gen_call es))
       \<or> (c \<noteq> [] \<and> get ''source'' (json resp) = JStr ''generation''
            \<and> get ''contextFound'' (json resp) = JBool True
            \<and> (\<exists>es. trace w' = trace w @ es \<and> list_ex is_gen_call es))
       \<or> (c = [] \<and> get ''source'' (json resp) = Undefined
            \<and> get ''contextFound'' (json resp) = JBool False
            \<and> get ''answer'' (json resp) = JNull
            \<and> (\<exists>es. trace w' = trace w @ es \<and> \<not> list_ex is_gen_call es))
       \<or> (c = [] \<and> get ''source'' (json resp) = Undefined
            \<and> get ''contextFound'' (json resp) = JBool False
            \<and> get ''info'' (json resp) = JStr generalAnswerInfo
            \<and> (\<exists>es. trace w' = trace w @ es \<and> list_ex is_gen_call es))"
proof (cases "c = []")
  case True
  show ?thesis
  proof (cases g)
    case True
    with \<open>c = []\<close> p have "post_generate key q c w = (resp, w')"
      by (simp add: post_answer_def)
    from post_generate_calls [OF this s] post_generate_json [OF this s] \<open>c = []\<close>
    show ?thesis by simp
  next
    case False
    with \<open>c = []\<close> p have "trace w' = trace w @ [] \<and> \<not> list_ex is_gen_call []"
      "json resp = JObj [(''answer'', JNull), (''info'', JStr noContextMsg),
                       (''contextFound'', JBool False)]"
      by (auto simp add: post_answer_def)
    with \<open>c = []\<close> show ?thesis by auto
  qed
next
  case False
  obtain r w1 where q: "tryExtractiveQA key q c ''deepset/roberta-base-squad2'' w = (r, w1)"
    by (cases "tryExtractiveQA key q c ''deepset/roberta-base-squad2'' w")
  let ?qa = "Fetch (hf_request key (question_answering ''deepset/roberta-base-squad2'')
        (JObj [(''inputs'', JObj [(''question'', JStr q), (''context'', JStr c)])]))"
  from qa_trace [OF k q] have t: "trace w1 = trace w @ [?qa]" .
  have gen: "post_generate key q c w1 = (resp, w') \<Longrightarrow> ?thesis"
  proof -
    assume a: "post_generate key q c w1 = (resp, w')"
    from post_generate_calls [OF a s] obtain es where
      "trace w' = trace w1 @ es" "list_ex is_gen_call es" by blast
    with t have "trace w' = trace w @ (?qa # es) \<and> list_ex is_gen_call (?qa # es)"
      by simp
    then have "\<exists>es. trace w' = trace w @ es \<and> list_ex is_gen_call es"
      by blast
    with post_generate_json [OF a s] False show ?thesis by simp
  qed
  show ?thesis
  proof (cases r)
    case (Inl e)
    with False p q have "post_generate key q c w1 = (resp, w')"
      by (simp add: post_answer_def)
    then show ?thesis by (rule gen)
  next
    case (Inr qa)
    show ?thesis
    proof (cases "usable qa")
      case True
      with False p q Inr have "w' = w1"
        "get ''source'' (json resp) = JStr ''extractive-qa''"
        "get ''contextFound'' (json resp) = JBool True"
        by (auto simp add: post_answer_def)
      moreover from t \<open>w' = w1\<close> have "trace w' = trace w @ [?qa] \<and> \<not> list_ex is_gen_call [?qa]"
        by simp
      ultimately show ?thesis using False by blast
    next
      case no: False
      with False p q Inr have "post_generate key q c w1 = (resp, w')"
        by (simp add: post_answer_def)
      then show ?thesis by (rule gen)
    qed
  qed
qed

lemma usable_extractive:
  "ctx \<noteq> [] \<Longrightarrow> tryExtractiveQA key q ctx ''deepset/roberta-base-squad2'' v = (Inr qa, v1) \<Longrightarrow>
   usable qa \<Longrightarrow>
   post_answer key q g ctx v =
     (\<lparr>status = 200,
       json = JObj [(''answer'', JStr (trim (answer (the qa)))), (''contextFound'', JBool True),
                    (''source'', JStr ''extractive-qa''),
                    (''score'', if nullish (score (the qa)) then JNull else score (the qa))]\<rparr>, v1)"
  by (simp add: post_answer_def)

lemma POST_200_sources:
  assumes p: "POST key search rq w = (resp, w')" and s: "status resp = 200"
  shows "(get ''source'' (json resp) = JStr ''extractive-qa''
            \<and> get ''contextFound'' (json resp) = JBool True
            \<and> context_of (rows_of search) \<noteq> [] \<and> \<not> list_ex is_gen_call (new_calls w w'))
       \<or> (get ''source'' (json resp) = JStr ''generation''
            \<and> get ''contextFound'' (json resp) = JBool True
            \<and> context_of (rows_of search) \<noteq> [] \<and> list_ex is_gen_call (new_calls w w'))
       \<or> (get ''source'' (json resp) = Undefined
            \<and> get ''contextFound'' (json resp) = JBool False
            \<and> get ''answer'' (json resp) = JNull
            \<and> context_of (rows_of search) = [] \<and> \<not> list_ex is_gen_call (new_calls w w'))
       \<or> (get ''source'' (json resp) = Undefined
            \<and> get ''contextFound'' (json resp) = JBool False
            \<and> get ''info'' (json resp) = JStr generalAnswerInfo
            \<and> context_of (rows_of search) = [] \<and> list_ex is_gen_call (new_calls w w'))"
proof -
  from POST_200 [OF p s] obtain b emb w1 where
    e: "ask_getHfEmbedding key (question_of b) ''sentence-transformers/all-MiniLM-L6-v2'' w
          = (Inr emb, w1)"
    and a: "post_answer key (question_of b) (truthy (optget ''generateIfNoContext'' b))
          (context_of (rows_of search))
          (w1\<lparr>trace := trace w1 @ [Rpc emb (threshold_of b) (email_filter_of b)]\<rparr>) = (resp, w')"
    by blast
  let ?emb = "Fetch (primary key (question_of b) ''sentence-transformers/all-MiniLM-L6-v2'')"
  let ?rpc = "Rpc emb (threshold_of b) (email_filter_of b)"
  from ask_embedding_trace [OF e] have k: "\<not> key_missing key"
    and t: "trace w1 = trace w @ [?emb]" by simp_all
  have n: "\<And>es. trace w' = trace (w1\<lparr>trace := trace w1 @ [?rpc]\<rparr>) @ es \<Longrightarrow>
      list_ex is_gen_call (new_calls w w') = list_ex is_gen_call es"
    using t by (simp add: new_calls_def)
  from post_answer_200 [OF a s k] n show ?thesis
    by (elim disjE conjE exE) simp_all
qed

lemma question_anyway: "question_of ask_anyway = ''Who is Brandon?''"
  by (simp add: question_of_def ask_anyway_def optget_def trim_eval)

lemma question_payment: "question_of ask_about_payment = ''Has Brandon paid?''"
  by (simp add: question_of_def ask_about_payment_def optget_def trim_example)

lemma trim_not_yet: "trim ''Not yet.'' = ''Not yet.''"
  by (simp add: trim_eval)

lemma run_ungrounded:
  "POST key0 (found []) (Inr ask_anyway) (start [r200, gen_ok]) =
     (\<lparr>status = 200,
       json = JObj [(''answer'', JStr ''Not yet.''), (''info'', JStr generalAnswerInfo),
                    (''contextFound'', JBool False)]\<rparr>,
      \<lparr>responses = [],
       trace = [Fetch (primary key0 ''Who is Brandon?'' ''sentence-transformers/all-MiniLM-L6-v2''),
                Rpc (vec v2) (Number ''-0.3'') (JStr ''brandon@gmail.com''),
                Fetch (hf_request key0 (text_generation ''distilgpt2'')
                  (payload (build_prompt [] ''Who is Brandon?'')))]\<rparr>)"
proof -
  have q: "question_of ask_anyway \<noteq> []"
    by (simp add: question_anyway)
  have e: "ask_getHfEmbedding key0 (question_of ask_anyway)
      ''sentence-transformers/all-MiniLM-L6-v2'' (start [r200, gen_ok])
      = (Inr (vec v2), \<lparr>responses = [gen_ok],
          trace = [Fetch (primary key0 (question_of ask_anyway) ''sentence-transformers/all-MiniLM-L6-v2'')]\<rparr>)"
    by (rule run_embedding)
  have s: "rpc_err (found []) = None"
    by (simp add: found_def)
  have g: "truthy (optget ''generateIfNoContext'' ask_anyway)"
    by (simp add: ask_anyway_def optget_def)
  have t: "threshold_of ask_anyway = Number ''-0.3''"
    "email_filter_of ask_anyway = JStr ''brandon@gmail.com''"
    by (simp_all add: threshold_of_def email_filter_of_def ask_anyway_def optget_def)
  have c: "context_of (rows_of (found [])) = []"
    by (simp add: found_def rows_of_def context_of_def contextArr_def)
  show ?thesis
    unfolding POST_reaches_answer [OF q e s] c t question_anyway
    using g
    by (simp add: post_answer_def post_generate_def tryGenerateWithFallbacks_def key0_def
        genModels_def fetch_def gen_ok_def json_response_def ok_def gen_text_def trim_not_yet)
qed

lemma run_extractive:
  "POST key0 (found invoice_rows) (Inr ask_about_payment) (start [r200, qa_ok, gen_ok]) =
     (\<lparr>status = 200,
       json = JObj [(''answer'', JStr ''No.''), (''contextFound'', JBool True),
                    (''source'', JStr ''extractive-qa''), (''score'', JNum (Number ''0.91''))]\<rparr>,
      \<lparr>responses = [gen_ok],
       trace = [Fetch (primary key0 ''Has Brandon paid?'' ''sentence-transformers/all-MiniLM-L6-v2''),
                Rpc (vec v2) (Number ''-0.3'') (JStr ''brandon@gmail.com''),
                Fetch (hf_request key0 (question_answering ''deepset/roberta-base-squad2'')
                  (JObj [(''inputs'', JObj [(''question'', JStr ''Has Brandon paid?''),
                     (''context'', JStr (''Invoice due.'' @ nl @ nl @ ''Thanks''))])]))]\<rparr>)"
proof -
  have q: "question_of ask_about_payment \<noteq> []"
    by (simp add: question_payment)
  have e: "ask_getHfEmbedding key0 (question_of ask_about_payment)
      ''sentence-transformers/all-MiniLM-L6-v2'' (start [r200, qa_ok, gen_ok])
      = (Inr (vec v2), \<lparr>responses = [qa_ok, gen_ok],
          trace = [Fetch (primary key0 (question_of ask_about_payment) ''sentence-transformers/all-MiniLM-L6-v2'')]\<rparr>)"
    by (rule run_embedding)
  have s: "rpc_err (found invoice_rows) = None"
    by (simp add: found_def)
  have t: "threshold_of ask_about_payment = Number ''-0.3''"
    "email_filter_of ask_about_payment = JStr ''brandon@gmail.com''"
    by (simp_all add: threshold_of_def email_filter_of_def ask_about_payment_def optget_def)
  have c: "context_of (rows_of (found invoice_rows)) = ''Invoice due.'' @ nl @ nl @ ''Thanks''"
    by (simp add: found_def rows_of_def context_invoice)
  have n: "trim ''No.'' = ''No.''"
    by (simp add: trim_eval)
  show ?thesis
    unfolding POST_reaches_answer [OF q e s] c t question_payment
    by (simp add: post_answer_def tryExtractiveQA_def key0_def fetch_def qa_ok_def json_response_def ok_def
        qa_parse_def n)
qed

lemma gen_text_empty_first:
  "get ''generated_text'' (JObj ob) = JStr [] \<Longrightarrow> gen_text (JArr (JObj ob # others)) = Some []"
  by (simp add: gen_text_def del: get.simps)

lemma generate_first_call:
  assumes "\<not> key_missing key"
    and "responses w = Response st t (Some j) # rest" and "ok st" and "gen_text j = Some s"
  shows "tryGenerateWithFallbacks key prompt (model # models) w =
     (Inr s, w\<lparr>responses := rest,
               trace := trace w @ [Fetch (hf_request key (text_generation model) (payload prompt))]\<rparr>)"
  using assms by (simp add: tryGenerateWithFallbacks_def fetch_def)

lemma stringify_empty_text:
  "stringify (JObj [(''generated_text'', JStr [])]) = empty_text_dump"
  by (simp add: empty_text_dump_def quote_def escape_char_def)

lemma gen_text_empty_object:
  "gen_text (JObj [(''generated_text'', JStr [])]) = Some empty_text_dump"
proof -
  have "take 4000 empty_text_dump = empty_text_dump"
    by (simp add: empty_text_dump_def)
  then show ?thesis
    by (simp add: gen_text_def stringify_empty_text del: stringify.simps)
qed

lemma idx0_falsy: "\<not> truthy v \<Longrightarrow> idx0 v = Undefined"
  by (cases v rule: idx0.cases) simp_all

lemma idx0_number_truthy: "is_number (idx0 v) \<Longrightarrow> truthy v"
  using idx0_falsy [of v] by (cases "truthy v") simp_all

lemma idx0_array_truthy: "isArray (idx0 v) \<Longrightarrow> truthy v"
  using idx0_falsy [of v] by (cases "truthy v") simp_all

lemma array_not_number: "isArray v \<Longrightarrow> \<not> is_number v"
  by (cases v) simp_all

lemma normalize_array:
  "ask_normalize (JArr []) = Inl shape_error"
  "is_number x \<Longrightarrow> ask_normalize (JArr (x # xs)) = Inr (JArr (x # xs))"
  "isArray x \<Longrightarrow> is_number (idx0 x) \<Longrightarrow> ask_normalize (JArr (x # xs)) = Inr x"
  "\<not> is_number x \<Longrightarrow> \<not> (isArray x \<and> is_number (idx0 x)) \<Longrightarrow>
     ask_normalize (JArr (x # xs)) = Inl shape_error"
  by (simp_all add: ask_normalize_def shape_error_def number_not_array array_not_number)

lemma normalize_primitive:
  "ask_normalize (JBool b) = Inl shape_error"
  "ask_normalize (JNum n) = Inl shape_error"
  "ask_normalize (JStr s) = Inl shape_error"
  "ask_normalize JNull = Inl (cannot_read ''embedding'')"
  "ask_normalize Undefined = Inl (cannot_read ''embedding'')"
  by (simp_all add: ask_normalize_def shape_error_def optget_def)

lemma normalize_object_embedding:
  "isArray (get ''embedding'' (JObj kvs)) \<Longrightarrow>
     ask_normalize (JObj kvs) = Inr (get ''embedding'' (JObj kvs))"
  by (simp add: ask_normalize_def isArray_truthy del: get.simps)

lemma normalize_object_nested:
  "\<not> isArray (get ''embedding'' (JObj kvs)) \<Longrightarrow>
   isArray (idx0 (get ''embeddings'' (JObj kvs))) \<Longrightarrow>
   is_number (idx0 (idx0 (get ''embeddings'' (JObj kvs)))) \<Longrightarrow>
     ask_normalize (JObj kvs) = Inr (idx0 (get ''embeddings'' (JObj kvs)))"
  by (simp add: ask_normalize_def idx0_array_truthy del: get.simps)

lemma normalize_object_flat:
  "\<not> isArray (get ''embedding'' (JObj kvs)) \<Longrightarrow>
   is_number (idx0 (get ''embeddings'' (JObj kvs))) \<Longrightarrow>
     ask_normalize (JObj kvs) = Inr (get ''embeddings'' (JObj kvs))"
  by (simp add: ask_normalize_def idx0_number_truthy number_not_array del: get.simps)

lemma normalize_object_data:
  "\<not> isArray (get ''embedding'' (JObj kvs)) \<Longrightarrow>
   \<not> is_number (idx0 (get ''embeddings'' (JObj kvs))) \<Longrightarrow>
   \<not> (isArray (idx0 (get ''embeddings'' (JObj kvs)))
        \<and> is_number (idx0 (idx0 (get ''embeddings'' (JObj kvs))))) \<Longrightarrow>
   isArray (get ''data'' (JObj kvs)) \<Longrightarrow>
   truthy (optget ''embedding'' (idx0 (get ''data'' (JObj kvs)))) \<Longrightarrow>
     ask_normalize (JObj kvs) = Inr (get ''embedding'' (idx0 (get ''data'' (JObj kvs))))"
  by (simp add: ask_normalize_def isArray_truthy del: get.simps) blast

lemma normalize_object_none:
  "\<not> isArray (get ''embedding'' (JObj kvs)) \<Longrightarrow>
   \<not> is_number (idx0 (get ''embeddings'' (JObj kvs))) \<Longrightarrow>
   \<not> (isArray (idx0 (get ''embeddings'' (JObj kvs)))
        \<and> is_number (idx0 (idx0 (get ''embeddings'' (JObj kvs))))) \<Longrightarrow>
   \<not> (isArray (get ''data'' (JObj kvs))
        \<and> truthy (optget ''embedding'' (idx0 (get ''data'' (JObj kvs))))) \<Longrightarrow>
     ask_normalize (JObj kvs) = Inl shape_error"
  by (simp add: ask_normalize_def shape_error_def del: get.simps)

text \<open>White space beyond ASCII is trimmed, at both ends only; a question that is U+00A0
  is a missing question.\<close>

lemma trim_nbsp: "trim nbsp = []"
  by (simp add: nbsp_def trim_eval)

lemma trim_unicode_blank: "trim unicode_blank = []"
  by (simp add: unicode_blank_def nbsp_def trim_eval)

lemma trim_inner:
  "trim (unicode_blank @ ''a'' @ nbsp @ ''b'' @ unicode_blank) = ''a'' @ nbsp @ ''b''"
  by (simp add: unicode_blank_def nbsp_def trim_eval)

lemma blank_question_refused:
  "POST key search (Inr ask_blank) w =
     (\<lparr>status = 400, json = JObj [(''error'', JStr ''Missing question'')]\<rparr>, w)"
  by (simp add: POST_def Let_def ask_blank_def optget_def nbsp_def trim_nbsp [unfolded nbsp_def])

lemma unicode_blank_unusable: "\<not> usable (Some \<lparr>answer = unicode_blank, score = Undefined\<rparr>)"
  by (simp add: trim_unicode_blank)

section \<open>Embedding response shapes\<close>

text \<open>
  C5, as amended. A response that carries a numeric vector \<open>ns\<close> in one of the five shapes
  is normalised to that vector: (a) the bare array, (b) an array whose first row is the
  vector, (c) an \<open>embedding\<close> field, whatever \<open>embeddings\<close> and \<open>data\<close> hold, (d) an
  \<open>embeddings\<close> field, flat or nested, when \<open>embedding\<close> is not an array and whatever \<open>data\<close>
  holds, (e) \<open>data[0].embedding\<close> when there is neither an \<open>embedding\<close> nor an \<open>embeddings\<close>
  field; in (a), (b) and (d) the vector must be non-empty. The two routes normalise alike.
  The tests look no further than the first element, and every body falls under one of
  the following cases. An array: returned as it is when its first element is a number;
  its first element is returned when that is an array starting with a number; the shape
  error otherwise, also for the empty array. A boolean, a number, a string: the shape
  error; \<open>null\<close>: the TypeError of reading a property of \<open>null\<close>. An object: its \<open>embedding\<close>
  when that is an array; else the first element of \<open>embeddings\<close> when that is an array
  starting with a number; else \<open>embeddings\<close> when its first element is a number; else
  \<open>data[0].embedding\<close> when \<open>data\<close> is an array and that field is truthy; else the shape
  error.
\<close>

theorem normalize_shapes_in_order:
  "(ns \<noteq> [] \<longrightarrow> ask_normalize (vec ns) = Inr (vec ns))
   \<and> (ns \<noteq> [] \<longrightarrow> ask_normalize (JArr (vec ns # others)) = Inr (vec ns))
   \<and> (get ''embedding'' (JObj kc) = vec ns \<longrightarrow> ask_normalize (JObj kc) = Inr (vec ns))
   \<and> (ns \<noteq> [] \<and> \<not> isArray (get ''embedding'' (JObj kd))
        \<and> (get ''embeddings'' (JObj kd) = vec ns \<or> get ''embeddings'' (JObj kd) = JArr (vec ns # others))
       \<longrightarrow> ask_normalize (JObj kd) = Inr (vec ns))
   \<and> (get ''embedding'' (JObj ke) = Undefined \<and> get ''embeddings'' (JObj ke) = Undefined
        \<and> get ''data'' (JObj ke) = JArr (JObj d # others) \<and> get ''embedding'' (JObj d) = vec ns
       \<longrightarrow> ask_normalize (JObj ke) = Inr (vec ns))
   \<and> store_normalize j = (case ask_normalize j of Inl e \<Rightarrow> None | Inr v \<Rightarrow> Some v)
   \<and> ask_normalize (JArr []) = Inl shape_error
   \<and> (is_number xa \<longrightarrow> ask_normalize (JArr (xa # xs)) = Inr (JArr (xa # xs)))
   \<and> (isArray xb \<and> is_number (idx0 xb) \<longrightarrow> ask_normalize (JArr (xb # xs)) = Inr xb)
   \<and> (\<not> is_number xc \<and> \<not> (isArray xc \<and> is_number (idx0 xc)) \<longrightarrow>
        ask_normalize (JArr (xc # xs)) = Inl shape_error)
   \<and> ask_normalize (JBool b) = Inl shape_error
   \<and> ask_normalize (JNum n) = Inl shape_error
   \<and> ask_normalize (JStr s) = Inl shape_error
   \<and> ask_normalize JNull = Inl (cannot_read ''embedding'')
   \<and> (isArray (get ''embedding'' (JObj ka)) \<longrightarrow>
        ask_normalize (JObj ka) = Inr (get ''embedding'' (JObj ka)))
   \<and> (\<not> isArray (get ''embedding'' (JObj kb))
        \<and> isArray (idx0 (get ''embeddings'' (JObj kb)))
        \<and> is_number (idx0 (idx0 (get ''embeddings'' (JObj kb)))) \<longrightarrow>
        ask_normalize (JObj kb) = Inr (idx0 (get ''embeddings'' (JObj kb))))
   \<and> (\<not> isArray (get ''embedding'' (JObj kf))
        \<and> is_number (idx0 (get ''embeddings'' (JObj kf))) \<longrightarrow>
        ask_normalize (JObj kf) = Inr (get ''embeddings'' (JObj kf)))
   \<and> (\<not> isArray (get ''embedding'' (JObj kg))
        \<and> \<not> is_number (idx0 (get ''embeddings'' (JObj kg)))
        \<and> \<not> (isArray (idx0 (get ''embeddings'' (JObj kg)))
             \<and> is_number (idx0 (idx0 (get ''embeddings'' (JObj kg)))))
        \<and> isArray (get ''data'' (JObj kg))
        \<and> truthy (optget ''embedding'' (idx0 (get ''data'' (JObj kg)))) \<longrightarrow>
        ask_normalize (JObj kg) = Inr (get ''embedding'' (idx0 (get ''data'' (JObj kg)))))
   \<and> (\<not> isArray (get ''embedding'' (JObj kh))
        \<and> \<not> is_number (idx0 (get ''embeddings'' (JObj kh)))
        \<and> \<not> (isArray (idx0 (get ''embeddings'' (JObj kh)))
             \<and> is_number (idx0 (idx0 (get ''embeddings'' (JObj kh)))))
        \<and> \<not> (isArray (get ''data'' (JObj kh))
             \<and> truthy (optget ''embedding'' (idx0 (get ''data'' (JObj kh))))) \<longrightarrow>
        ask_normalize (JObj kh) = Inl shape_error)"
proof (intro conjI impI, goal_cases)
  case 1 then show ?case by (rule shape_a)
next
  case 2 then show ?case by (rule shape_b)
next
  case 3 then show ?case by (rule shape_c)
next
  case 4 then show ?case
    by (blast intro: shape_d_flat shape_d_nested)
next
  case 5 then show ?case by (elim conjE) (rule shape_e; assumption)
next
  case 6 show ?case by (rule store_ask)
next
  case 7 show ?case by (rule normalize_array(1))
next
  case 8 then show ?case by (rule normalize_array(2))
next
  case 9 then show ?case by (elim conjE) (rule normalize_array(3); assumption)
next
  case 10 then show ?case by (elim conjE) (rule normalize_array(4); assumption)
next
  case 11 show ?case by (rule normalize_primitive(1))
next
  case 12 show ?case by (rule normalize_primitive(2))
next
  case 13 show ?case by (rule normalize_primitive(3))
next
  case 14 show ?case by (rule normalize_primitive(4))
next
  case 15 then show ?case by (rule normalize_object_embedding)
next
  case 16 then show ?case by (elim conjE) (rule normalize_object_nested; assumption)
next
  case 17 then show ?case by (elim conjE) (rule normalize_object_flat; assumption)
next
  case 18 then show ?case by (elim conjE) (rule normalize_object_data; assumption)
next
  case 19 then show ?case by (elim conjE) (rule normalize_object_none; assumption)
qed

theorem normalize_shapes_in_order_witness:
  "ask_normalize (vec v2) = Inr (vec v2)
   \<and> ask_normalize (JArr [vec v2]) = Inr (vec v2)
   \<and> ask_normalize (JObj obj_c) = Inr (vec v2)
   \<and> ask_normalize (JObj obj_d) = Inr (vec v2)
   \<and> ask_normalize (JObj obj_e) = Inr (vec v2)
   \<and> store_normalize (JObj obj_e) = Some (vec v2)
   \<and> ask_normalize (JArr [JArr []]) = Inl shape_error
   \<and> ask_normalize (JArr [JStr ''busy'', vec v2]) = Inl shape_error
   \<and> ask_normalize (JObj [(''embeddings'', JArr [])]) = Inl shape_error
   \<and> ask_normalize (JObj [(''embeddings'', JArr [JArr []])]) = Inl shape_error
   \<and> ask_normalize (JObj [(''embedding'', JStr ''busy'')]) = Inl shape_error"
proof -
  have a: "v2 \<noteq> []" "get ''embedding'' (JObj obj_c) = vec v2"
    "\<not> isArray (get ''embedding'' (JObj obj_d))"
    "get ''embeddings'' (JObj obj_d) = JArr (vec v2 # [])"
    "get ''embedding'' (JObj obj_e) = Undefined" "get ''embeddings'' (JObj obj_e) = Undefined"
    "get ''data'' (JObj obj_e) = JArr (JObj [(''embedding'', vec v2)] # [])"
    "get ''embedding'' (JObj [(''embedding'', vec v2)]) = vec v2"
    by (simp_all add: v2_def obj_c_def obj_d_def obj_e_def vec_def)
  have b: "is_number (JNum (Number ''1''))" "isArray (vec v2) \<and> is_number (idx0 (vec v2))"
    "\<not> is_number (JArr []) \<and> \<not> (isArray (JArr []) \<and> is_number (idx0 (JArr [])))"
    "\<not> is_number (JStr ''busy'') \<and> \<not> (isArray (JStr ''busy'') \<and> is_number (idx0 (JStr ''busy'')))"
    by (simp_all add: v2_def vec_def)
  have c: "isArray (get ''embedding'' (JObj obj_c))"
    "\<not> isArray (get ''embedding'' (JObj obj_d)) \<and> isArray (idx0 (get ''embeddings'' (JObj obj_d)))
       \<and> is_number (idx0 (idx0 (get ''embeddings'' (JObj obj_d))))"
    "\<not> isArray (get ''embedding'' (JObj [(''embeddings'', vec v2)]))
       \<and> is_number (idx0 (get ''embeddings'' (JObj [(''embeddings'', vec v2)])))"
    "\<not> isArray (get ''embedding'' (JObj obj_e))
       \<and> \<not> is_number (idx0 (get ''embeddings'' (JObj obj_e)))
       \<and> \<not> (isArray (idx0 (get ''embeddings'' (JObj obj_e)))
             \<and> is_number (idx0 (idx0 (get ''embeddings'' (JObj obj_e)))))
       \<and> isArray (get ''data'' (JObj obj_e))
       \<and> truthy (optget ''embedding'' (idx0 (get ''data'' (JObj obj_e))))"
    by (simp_all add: v2_def obj_c_def obj_d_def obj_e_def vec_def optget_def)
  have n: "\<And>kh. kh \<in> {[(''embeddings'', JArr [])], [(''embeddings'', JArr [JArr []])],
        [(''embedding'', JStr ''busy'')]} \<Longrightarrow>
      \<not> isArray (get ''embedding'' (JObj kh))
        \<and> \<not> is_number (idx0 (get ''embeddings'' (JObj kh)))
        \<and> \<not> (isArray (idx0 (get ''embeddings'' (JObj kh)))
             \<and> is_number (idx0 (idx0 (get ''embeddings'' (JObj kh)))))
        \<and> \<not> (isArray (get ''data'' (JObj kh))
             \<and> truthy (optget ''embedding'' (idx0 (get ''data'' (JObj kh)))))"
    by auto
  note inst = normalize_shapes_in_order [where ns = v2 and others = "[]" and kc = obj_c
      and kd = obj_d and ke = obj_e and d = "[(''embedding'', vec v2)]" and j = "JObj obj_e"
      and xa = "JNum (Number ''1'')" and xb = "vec v2" and ka = obj_c and kb = obj_d
      and kf = "[(''embeddings'', vec v2)]" and kg = obj_e]
  from inst [where xc = "JArr []" and xs = "[]" and kh = "[(''embeddings'', JArr [])]"]
    inst [where xc = "JStr ''busy''" and xs = "[vec v2]" and kh = "[(''embeddings'', JArr [JArr []])]"]
    inst [where xc = "JArr []" and xs = "[]" and kh = "[(''embedding'', JStr ''busy'')]"]
    a b c n
  show ?thesis
    by (simp add: store_ask)
qed

text \<open>C5 as stated fails: a body with a \<open>data[0].embedding\<close> field that is a string is
  neither refused nor turned into a numeric vector; the string is returned.\<close>

theorem normalize_returns_non_vector:
  "ask_normalize loose_e = Inr (JStr ''hello'')
   \<and> store_normalize loose_e = Some (JStr ''hello'')
   \<and> \<not> numeric_vector (JStr ''hello'')"
  by (simp add: loose_e_def ask_normalize_def store_normalize_def optget_def)

section \<open>Retries of the store-email embedding fetch\<close>

text \<open>
  C6 on the code. After a 404 the store-email \<open>getHfEmbedding\<close> does not leave the endpoint:
  the \<open>throw\<close> of line 123 lands in the \<open>catch\<close> of line 148, which sleeps
  \<open>250 * attempt\<close> ms and tries the same URL again, three attempts in all, before the
  fallback URL is called. A body of an unexpected shape is retried in the same way.
\<close>

theorem store_permanent_failure_retried:
  "store_getHfEmbedding key0 ''hello'' minilm \<lparr>responses = [r404, r404, r404, r200], trace = []\<rparr>
     = (Inr (vec v2),
        \<lparr>responses = [],
         trace = [Fetch (primary key0 ''hello'' minilm), Sleep 250,
                  Fetch (primary key0 ''hello'' minilm), Sleep 500,
                  Fetch (primary key0 ''hello'' minilm),
                  Fetch (fallback key0 ''hello'' minilm)]\<rparr>)
   \<and> store_getHfEmbedding key0 ''hello'' minilm \<lparr>responses = [r200_odd, r200], trace = []\<rparr>
     = (Inr (vec v2),
        \<lparr>responses = [],
         trace = [Fetch (primary key0 ''hello'' minilm), Sleep 250,
                  Fetch (primary key0 ''hello'' minilm)]\<rparr>)"
  unfolding store_getHfEmbedding_def store_endpoints.simps attempts_list
  by (simp add: key0_def r404_def r200_def json_response_def r200_odd_def v2_def vec_def fetch_def ok_def sleep_def
      on_catch_def maxAttempts_def store_normalize_def primary_def fallback_def)

text \<open>
  C7, as amended, for \<open>getHfEmbedding\<close> of the store-email route. Two responses with status
  500 and then a 200 whose body normalises to \<open>v\<close>: the function returns \<open>v\<close> after three
  calls to the primary URL with a delay of \<open>1 * 300\<close> ms and one of \<open>2 * 300\<close> ms between
  them, and no call to the fallback URL.
\<close>

theorem store_two_500_then_200:
  assumes "\<not> key_missing key"
    and "store_normalize j = Some v"
    and "responses w = Response 500 ta ba # Response 500 tb bb # Response 200 tc (Some j) # rest"
  shows "store_getHfEmbedding key inp model w =
     (Inr v, w\<lparr>responses := rest,
               trace := trace w @ [Fetch (primary key inp model), Sleep (1 * 300),
                                   Fetch (primary key inp model), Sleep (2 * 300),
                                   Fetch (primary key inp model)]\<rparr>)"
  using assms unfolding store_getHfEmbedding_def store_endpoints.simps attempts_list
  by (simp add: fetch_def ok_def sleep_def primary_def)

theorem store_two_500_then_200_witness:
  "\<not> key_missing key0 \<and> store_normalize (vec v2) = Some (vec v2)
   \<and> store_getHfEmbedding key0 ''hello'' minilm \<lparr>responses = [r500, r500, r200, r200], trace = []\<rparr>
     = (Inr (vec v2),
        \<lparr>responses = [r200],
         trace = [Fetch (primary key0 ''hello'' minilm), Sleep 300,
                  Fetch (primary key0 ''hello'' minilm), Sleep 600,
                  Fetch (primary key0 ''hello'' minilm)]\<rparr>)"
  using store_two_500_then_200 [where key = key0 and j = "vec v2" and v = "vec v2"
      and w = "\<lparr>responses = [r500, r500, r200, r200], trace = []\<rparr>"
      and ta = "(''Internal Server Error'')" and ba = None
      and tb = "(''Internal Server Error'')" and bb = None
      and tc = "stringify (vec v2)" and rest = "[r200]" and inp = "(''hello'')" and model = minilm]
  by (simp add: key0_def r500_def r200_def json_response_def v2_def vec_def store_normalize_def)

text \<open>C7 as stated fails for \<open>getHfEmbedding\<close> of the ask-question route, which the
  pipeline uses: it makes one call, and the first 500 is its error; there is no delay and
  no second call.\<close>

theorem ask_embedding_fails_on_first_500:
  "ask_getHfEmbedding key0 ''hello'' minilm \<lparr>responses = [r500, r500, r200], trace = []\<rparr>
     = (Inl (Error ''HF embedding error: 500 Internal Server Error''),
        \<lparr>responses = [r500, r200], trace = [Fetch (primary key0 ''hello'' minilm)]\<rparr>)"
  by (simp add: ask_getHfEmbedding_def key0_def r500_def fetch_def ok_def primary_def
      show_nat.simps digit_def)

section \<open>The generation fallback\<close>

text \<open>
  C4. With the key set, \<open>tryGenerateWithFallbacks\<close> makes its calls in the order of
  \<open>gen_requests\<close>: for each model of the list in turn, text-generation and then
  text2text-generation. If the first \<open>2 * length models\<close> responses all fail, it makes all
  these calls and throws the all-models-failed error. If the response number \<open>k\<close> is the
  first that succeeds, it returns that text after exactly the first \<open>k + 1\<close> calls. When
  every call fails for the handler's model list, the handler answers with status 502
  and an error body.
\<close>

theorem generation_fallback_order:
  assumes "\<not> key_missing key"
  shows "((\<forall>i < 2 * length ma. outcome i (response_at (responses wa) i) = None) \<longrightarrow>
            tryGenerateWithFallbacks key prompt ma wa =
              (Inl (Error ''All generation models failed or were unavailable''),
               wa\<lparr>responses := drop (2 * length ma) (responses wa),
                  trace := trace wa @ map Fetch (gen_requests key prompt ma)\<rparr>))
       \<and> (k < 2 * length mb \<and> outcome k (response_at (responses wb) k) = Some t
            \<and> (\<forall>i < k. outcome i (response_at (responses wb) i) = None) \<longrightarrow>
            tryGenerateWithFallbacks key prompt mb wb =
              (Inr t,
               wb\<lparr>responses := drop (Suc k) (responses wb),
                  trace := trace wb @ map Fetch (take (Suc k) (gen_requests key prompt mb))\<rparr>))
       \<and> ((\<forall>i < 2 * length genModels. outcome i (response_at (responses wc) i) = None) \<longrightarrow>
            post_generate key question ctx wc =
              (\<lparr>status = 502,
                json = JObj [(''error'',
                  JStr ''Failed to generate answer: no available HF generation model.'')]\<rparr>,
               wc\<lparr>responses := drop (2 * length genModels) (responses wc),
                  trace := trace wc
                    @ map Fetch (gen_requests key (build_prompt ctx question) genModels)\<rparr>))"
  using assms generate_loop_exhausted [of ma wa key prompt]
    generate_loop_first_success [of k mb wb t key prompt]
    generate_loop_exhausted [of genModels wc key "build_prompt ctx question"]
    post_generate_error [of key ctx question wc]
  by (simp add: tryGenerate_loop)

theorem generation_fallback_order_witness:
  "\<not> key_missing key0
   \<and> outcome 2 (response_at [NetworkError, r404, gen_ok, r500] 2) = Some ''Not yet.''
   \<and> tryGenerateWithFallbacks key0 ''p'' two_models \<lparr>responses = [r500, r404, r500], trace = []\<rparr> =
       (Inl (Error ''All generation models failed or were unavailable''),
        \<lparr>responses = [],
         trace = [Fetch (hf_request key0 (text_generation ''distilgpt2'') (payload ''p'')),
                  Fetch (hf_request key0 (text2text_generation ''distilgpt2'') (payload2 ''p'')),
                  Fetch (hf_request key0 (text_generation ''gpt2-medium'') (payload ''p'')),
                  Fetch (hf_request key0 (text2text_generation ''gpt2-medium'') (payload2 ''p''))]\<rparr>)
   \<and> tryGenerateWithFallbacks key0 ''p'' two_models
         \<lparr>responses = [NetworkError, r404, gen_ok, r500], trace = []\<rparr> =
       (Inr ''Not yet.'',
        \<lparr>responses = [r500],
         trace = [Fetch (hf_request key0 (text_generation ''distilgpt2'') (payload ''p'')),
                  Fetch (hf_request key0 (text2text_generation ''distilgpt2'') (payload2 ''p'')),
                  Fetch (hf_request key0 (text_generation ''gpt2-medium'') (payload ''p''))]\<rparr>)
   \<and> status (fst (post_generate key0 ''q'' ''c'' \<lparr>responses = [], trace = []\<rparr>)) = 502"
proof -
  have k: "\<not> key_missing key0"
    by (simp add: key0_def)
  have none: "\<And>i. outcome i NetworkError = None" "\<And>i. outcome i r404 = None"
    "\<And>i. outcome i r500 = None"
    by (simp_all add: outcome_def r404_def r500_def ok_def)
  have a: "\<forall>i < 2 * length two_models.
      outcome i (response_at (responses \<lparr>responses = [r500, r404, r500], trace = []\<rparr>) i) = None"
    by (simp add: response_at_def none nth_Cons split: nat.split)
  have s: "outcome 2 (response_at [NetworkError, r404, gen_ok, r500] 2) = Some ''Not yet.''"
    by (simp add: response_at_def outcome_def gen_ok_def json_response_def ok_def gen_text_def)
  have b: "\<forall>i < 2. outcome i
      (response_at (responses \<lparr>responses = [NetworkError, r404, gen_ok, r500], trace = []\<rparr>) i) = None"
    by (simp add: response_at_def none nth_Cons split: nat.split)
  have c: "\<forall>i < 2 * length genModels.
      outcome i (response_at (responses \<lparr>responses = [], trace = []\<rparr>) i) = None"
    by (simp add: response_at_def none)
  show ?thesis
    using generation_fallback_order [OF k, where ma = two_models
        and wa = "\<lparr>responses = [r500, r404, r500], trace = []\<rparr>"
        and k = 2 and mb = two_models
        and wb = "\<lparr>responses = [NetworkError, r404, gen_ok, r500], trace = []\<rparr>"
        and t = "(''Not yet.'')" and prompt = "(''p'')"
        and wc = "\<lparr>responses = [], trace = []\<rparr>" and question = "(''q'')" and ctx = "(''c'')"]
      k a s b c
    by (simp add: two_models_def numeral_2_eq_2 numeral_3_eq_3)
qed

section \<open>The handler\<close>

text \<open>
  C3. A request with a question, whose \<open>generateIfNoContext\<close> is falsy, for which the
  embedding succeeds and the search answers without error with an empty context: the
  handler answers 200 with \<open>answer: null\<close>, the informational message and
  \<open>contextFound: false\<close>. The only calls it has made are the embedding call and the search:
  no call to the question-answering pipeline and none to a generation pipeline.
\<close>

theorem no_context_short_circuit:
  assumes "question_of b \<noteq> []"
    and "\<not> truthy (optget ''generateIfNoContext'' b)"
    and "ask_getHfEmbedding key (question_of b) ''sentence-transformers/all-MiniLM-L6-v2'' w
           = (Inr emb, w1)"
    and "rpc_err search = None"
    and "context_of (rows_of search) = []"
  shows "POST key search (Inr b) w =
           (\<lparr>status = 200,
             json = JObj [(''answer'', JNull), (''info'', JStr noContextMsg),
                          (''contextFound'', JBool False)]\<rparr>,
            w1\<lparr>trace := trace w
               @ [Fetch (primary key (question_of b) ''sentence-transformers/all-MiniLM-L6-v2''),
                  Rpc emb (threshold_of b) (email_filter_of b)]\<rparr>)
         \<and> \<not> list_ex is_qa_call (new_calls w (snd (POST key search (Inr b) w)))
         \<and> \<not> list_ex is_gen_call (new_calls w (snd (POST key search (Inr b) w)))"
proof -
  from assms(3) have t: "trace w1 = trace w
      @ [Fetch (primary key (question_of b) ''sentence-transformers/all-MiniLM-L6-v2'')]"
    by (simp add: ask_embedding_trace)
  have "POST key search (Inr b) w =
     post_answer key (question_of b) (truthy (optget ''generateIfNoContext'' b))
          (context_of (rows_of search))
          (w1\<lparr>trace := trace w1 @ [Rpc emb (threshold_of b) (email_filter_of b)]\<rparr>)"
    using assms(1,3,4) by (rule POST_reaches_answer)
  with assms(2,5) t have p: "POST key search (Inr b) w =
           (\<lparr>status = 200,
             json = JObj [(''answer'', JNull), (''info'', JStr noContextMsg),
                          (''contextFound'', JBool False)]\<rparr>,
            w1\<lparr>trace := trace w
               @ [Fetch (primary key (question_of b) ''sentence-transformers/all-MiniLM-L6-v2''),
                  Rpc emb (threshold_of b) (email_filter_of b)]\<rparr>)"
    by (simp add: post_answer_def)
  then show ?thesis
    by (simp add: new_calls_def)
qed

theorem no_context_short_circuit_witness:
  "question_of ask_about_payment = ''Has Brandon paid?''
   \<and> POST key0 (found blank_rows) (Inr ask_about_payment) (start [r200, qa_ok, gen_ok]) =
       (\<lparr>status = 200,
         json = JObj [(''answer'', JNull),
                      (''info'', JStr ''No relevant email content was found for that query.''),
                      (''contextFound'', JBool False)]\<rparr>,
        \<lparr>responses = [qa_ok, gen_ok],
         trace = [Fetch (primary key0 ''Has Brandon paid?'' ''sentence-transformers/all-MiniLM-L6-v2''),
                  Rpc (vec v2) (Number ''-0.3'') (JStr ''brandon@gmail.com'')]\<rparr>)"
proof -
  have q: "question_of ask_about_payment = ''Has Brandon paid?''"
    by (simp add: question_of_def ask_about_payment_def optget_def trim_example)
  have q0: "question_of ask_about_payment \<noteq> []"
    by (simp add: q)
  have g: "\<not> truthy (optget ''generateIfNoContext'' ask_about_payment)"
    by (simp add: ask_about_payment_def optget_def)
  have e: "ask_getHfEmbedding key0 (question_of ask_about_payment)
      ''sentence-transformers/all-MiniLM-L6-v2'' (start [r200, qa_ok, gen_ok])
      = (Inr (vec v2), \<lparr>responses = [qa_ok, gen_ok],
          trace = [Fetch (primary key0 (question_of ask_about_payment) ''sentence-transformers/all-MiniLM-L6-v2'')]\<rparr>)"
    by (rule run_embedding)
  have s: "rpc_err (found blank_rows) = None"
    by (simp add: found_def)
  have c: "context_of (rows_of (found blank_rows)) = []"
    by (simp add: found_def rows_of_def blank_rows_def context_of_def contextArr_def)
  from no_context_short_circuit [OF q0 g e s c] q show ?thesis
    by (simp add: start_def noContextMsg_def threshold_of_def email_filter_of_def
        ask_about_payment_def optget_def)
qed

text \<open>
  C2. With a context, when \<open>tryExtractiveQA\<close> returns a result whose answer is empty after
  trimming, the handler goes on exactly as the generation step does from the world the
  call left; a run in which the call returned \<open>null\<close> and left the same world ends the same
  way; and the response is never the extractive one.
\<close>

theorem blank_answer_falls_back:
  assumes "ctx \<noteq> []"
    and "tryExtractiveQA key question ctx ''deepset/roberta-base-squad2'' w = (Inr (Some r), w1)"
    and "trim (answer r) = []"
  shows "post_answer key question g ctx w = post_generate key question ctx w1
       \<and> (tryExtractiveQA key question ctx ''deepset/roberta-base-squad2'' v = (Inr None, w1)
            \<longrightarrow> post_answer key question g ctx v = post_answer key question g ctx w)
       \<and> get ''source'' (json (fst (post_answer key question g ctx w))) \<noteq> JStr ''extractive-qa''"
proof -
  from assms have a: "post_answer key question g ctx w = post_generate key question ctx w1"
    by (simp add: post_answer_def)
  have b: "tryExtractiveQA key question ctx ''deepset/roberta-base-squad2'' v = (Inr None, w1)
            \<Longrightarrow> post_answer key question g ctx v = post_generate key question ctx w1"
    using assms(1) by (simp add: post_answer_def)
  from a b post_generate_source [of key question ctx w1] show ?thesis
    by simp
qed

theorem blank_answer_falls_back_witness:
  "context_of invoice_rows \<noteq> []
   \<and> tryExtractiveQA key0 ''q'' (context_of invoice_rows) ''deepset/roberta-base-squad2''
        (start [qa_blank, r500, gen_ok])
      = (Inr (Some \<lparr>answer = unicode_blank, score = Undefined\<rparr>),
         \<lparr>responses = [r500, gen_ok],
          trace = [Fetch (hf_request key0 (question_answering ''deepset/roberta-base-squad2'')
                     (JObj [(''inputs'', JObj [(''question'', JStr ''q''),
                        (''context'', JStr (context_of invoice_rows))])]))]\<rparr>)
   \<and> tryExtractiveQA key0 ''q'' (context_of invoice_rows) ''deepset/roberta-base-squad2''
        (start [r404, r500, gen_ok])
      = (Inr None,
         \<lparr>responses = [r500, gen_ok],
          trace = [Fetch (hf_request key0 (question_answering ''deepset/roberta-base-squad2'')
                     (JObj [(''inputs'', JObj [(''question'', JStr ''q''),
                        (''context'', JStr (context_of invoice_rows))])]))]\<rparr>)
   \<and> fst (post_answer key0 ''q'' False (context_of invoice_rows) (start [qa_blank, r500, gen_ok]))
      = \<lparr>status = 200,
         json = JObj [(''answer'', JStr ''Not yet.''), (''contextFound'', JBool True),
                      (''source'', JStr ''generation'')]\<rparr>
   \<and> post_answer key0 ''q'' False (context_of invoice_rows) (start [r404, r500, gen_ok])
      = post_answer key0 ''q'' False (context_of invoice_rows) (start [qa_blank, r500, gen_ok])"
proof -
  have c: "context_of invoice_rows \<noteq> []"
    by (simp add: context_invoice)
  have a: "tryExtractiveQA key0 ''q'' (context_of invoice_rows) ''deepset/roberta-base-squad2''
        (start [qa_blank, r500, gen_ok])
      = (Inr (Some \<lparr>answer = unicode_blank, score = Undefined\<rparr>),
         \<lparr>responses = [r500, gen_ok],
          trace = [Fetch (hf_request key0 (question_answering ''deepset/roberta-base-squad2'')
                     (JObj [(''inputs'', JObj [(''question'', JStr ''q''),
                        (''context'', JStr (context_of invoice_rows))])]))]\<rparr>)"
    by (simp add: tryExtractiveQA_def key0_def start_def fetch_def qa_blank_def json_response_def ok_def qa_parse_def
        unicode_blank_def nbsp_def)
  have b: "tryExtractiveQA key0 ''q'' (context_of invoice_rows) ''deepset/roberta-base-squad2''
        (start [r404, r500, gen_ok])
      = (Inr None,
         \<lparr>responses = [r500, gen_ok],
          trace = [Fetch (hf_request key0 (question_answering ''deepset/roberta-base-squad2'')
                     (JObj [(''inputs'', JObj [(''question'', JStr ''q''),
                        (''context'', JStr (context_of invoice_rows))])]))]\<rparr>)"
    by (simp add: tryExtractiveQA_def key0_def start_def fetch_def r404_def ok_def)
  have t: "trim (answer \<lparr>answer = unicode_blank, score = Undefined\<rparr>) = []"
    by (simp add: trim_unicode_blank)
  have g: "fst (post_generate key0 ''q'' (context_of invoice_rows)
          \<lparr>responses = [r500, gen_ok],
          trace = [Fetch (hf_request key0 (question_answering ''deepset/roberta-base-squad2'')
                     (JObj [(''inputs'', JObj [(''question'', JStr ''q''),
                        (''context'', JStr (context_of invoice_rows))])]))]\<rparr>)
      = \<lparr>status = 200,
         json = JObj [(''answer'', JStr ''Not yet.''), (''contextFound'', JBool True),
                      (''source'', JStr ''generation'')]\<rparr>"
    using c
    by (simp add: post_generate_def tryGenerateWithFallbacks_def key0_def genModels_def fetch_def
        r500_def gen_ok_def json_response_def ok_def gen_text_def gen_text2_def trim_eval)
  from blank_answer_falls_back [OF c a t, where g = False
      and v = "start [r404, r500, gen_ok]"] a b c g
  show ?thesis by simp
qed

section \<open>The context\<close>

text \<open>
  C8. The context is the kept contents of the rows joined by a blank line, in the order of
  the rows (\<open>contextArr\<close> distributes over \<open>@\<close>). Reordering the rows by any list \<open>p\<close> of
  positions, a permutation in particular, reorders the kept contents in the same way;
  when every row has content, the context is the join of all contents and the pieces
  of the reordered result are the pieces of the original at the positions \<open>p\<close>. The
  fields \<open>section_order\<close> and \<open>similarity\<close> play no part.
\<close>

theorem context_keeps_search_order:
  "context_of rows = join (nl @ nl) (contextArr rows)
   \<and> contextArr (xs @ ys) = contextArr xs @ contextArr ys
   \<and> ((\<forall>i \<in> set p. i < length rows) \<longrightarrow>
        contextArr (map ((!) rows) p) =
          map (\<lambda>i. the (section_content (rows ! i)))
            (filter (\<lambda>i. content_truthy (section_content (rows ! i))) p))
   \<and> ((\<forall>r \<in> set rows. content_truthy (section_content r)) \<and> (\<forall>i \<in> set p. i < length rows) \<longrightarrow>
        context_of rows = join (nl @ nl) (map (\<lambda>r. the (section_content r)) rows)
        \<and> contextArr (map ((!) rows) p) = map ((!) (contextArr rows)) p)
   \<and> contextArr (map (\<lambda>r. r\<lparr>section_order := f r, similarity := g r\<rparr>) rows) = contextArr rows"
  using contextArr_append [of xs ys] contextArr_reindex [of rows p] context_of_full [of rows]
    contextArr_permuted [of rows p] contextArr_other_fields [where f = f and g = g and rows = rows]
  by (simp add: context_of_def)

theorem context_keeps_search_order_witness:
  "context_of invoice_rows = ''Invoice due.'' @ nl @ nl @ ''Thanks''
   \<and> context_of (map ((!) invoice_rows) [1, 0]) = ''Thanks'' @ nl @ nl @ ''Invoice due.''
   \<and> contextArr (map ((!) invoice_rows) [1, 0]) = map ((!) (contextArr invoice_rows)) [1, 0]
   \<and> contextArr (map ((!) invoice_rows) [1, 0]) = [''Thanks'', ''Invoice due.'']"
proof -
  have a: "\<forall>r \<in> set invoice_rows. content_truthy (section_content r)"
    by (simp add: invoice_rows_def)
  have b: "\<forall>i \<in> set [1, 0]. i < length invoice_rows"
    by (simp add: invoice_rows_def)
  have c: "contextArr invoice_rows = [''Invoice due.'', ''Thanks'']"
    by (simp add: contextArr_def invoice_rows_def)
  from context_keeps_search_order [where rows = invoice_rows and p = "[1, 0]"] a b c
  show ?thesis
    by (simp add: context_of_def invoice_rows_def)
qed

text \<open>
  C9. A row whose content is missing or empty leaves no trace in the context. When every
  row is such a row the context is empty, the handler does exactly what it does for a
  search without rows, and a response with status 200 carries \<open>contextFound: false\<close>.
\<close>

theorem blank_sections_are_no_context:
  "(section_content r = None \<or> section_content r = Some [] \<longrightarrow>
      context_of (xs @ r # ys) = context_of (xs @ ys))
   \<and> ((\<forall>r \<in> set rows. section_content r = None \<or> section_content r = Some []) \<longrightarrow>
        context_of rows = []
        \<and> POST key \<lparr>rpc_data = Some rows, rpc_err = None\<rparr> rq w
            = POST key \<lparr>rpc_data = Some [], rpc_err = None\<rparr> rq w
        \<and> (status (fst (POST key \<lparr>rpc_data = Some rows, rpc_err = None\<rparr> rq w)) = 200 \<longrightarrow>
             get ''contextFound'' (json (fst (POST key \<lparr>rpc_data = Some rows, rpc_err = None\<rparr> rq w)))
               = JBool False))"
proof -
  have "context_of rows = [] \<Longrightarrow>
      POST key \<lparr>rpc_data = Some rows, rpc_err = None\<rparr> rq w
            = POST key \<lparr>rpc_data = Some [], rpc_err = None\<rparr> rq w"
    by (rule POST_context_only) (simp_all add: rows_of_def context_of_def contextArr_def)
  moreover have "context_of rows = [] \<Longrightarrow>
      status (fst (POST key \<lparr>rpc_data = Some rows, rpc_err = None\<rparr> rq w)) = 200 \<Longrightarrow>
      get ''contextFound'' (json (fst (POST key \<lparr>rpc_data = Some rows, rpc_err = None\<rparr> rq w)))
               = JBool False"
    by (rule POST_no_context) (simp_all add: rows_of_def)
  ultimately show ?thesis
    using context_of_drop [of r xs ys] context_of_blank [of rows] by blast
qed

theorem blank_sections_are_no_context_witness:
  "context_of (blank_rows @ invoice_rows) = context_of invoice_rows
   \<and> context_of blank_rows = []
   \<and> POST key0 \<lparr>rpc_data = Some blank_rows, rpc_err = None\<rparr> (Inr ask_anyway) (start [r200, gen_ok]) =
     (\<lparr>status = 200,
       json = JObj [(''answer'', JStr ''Not yet.''), (''info'', JStr generalAnswerInfo),
                    (''contextFound'', JBool False)]\<rparr>,
      \<lparr>responses = [],
       trace = [Fetch (primary key0 ''Who is Brandon?'' ''sentence-transformers/all-MiniLM-L6-v2''),
                Rpc (vec v2) (Number ''-0.3'') (JStr ''brandon@gmail.com''),
                Fetch (hf_request key0 (text_generation ''distilgpt2'')
                  (payload (build_prompt [] ''Who is Brandon?'')))]\<rparr>)"
proof -
  have h: "\<forall>r \<in> set blank_rows. section_content r = None \<or> section_content r = Some []"
    by (simp add: blank_rows_def)
  have d: "section_content (blank_rows ! 1) = None \<or> section_content (blank_rows ! 1) = Some []"
    by (simp add: blank_rows_def)
  have c: "context_of (blank_rows @ invoice_rows) = context_of invoice_rows"
    by (simp add: context_of_def contextArr_def blank_rows_def)
  from blank_sections_are_no_context [where rows = blank_rows and key = key0
      and rq = "Inr ask_anyway" and w = "start [r200, gen_ok]"
      and r = "blank_rows ! 1" and xs = "[blank_rows ! 0]" and ys = invoice_rows] h d c
    run_ungrounded
  show ?thesis
    by (simp add: found_def)
qed

section \<open>The source of an answer\<close>

text \<open>
  C1, as amended. A response of the handler with status 200 is of one of four kinds: the
  extractive answer, tagged \<open>source: "extractive-qa"\<close>, with context found and without
  any call to a generation pipeline; the generated answer on a non-empty context, tagged
  \<open>source: "generation"\<close>; the \<open>answer: null\<close> of the no-context exit, with no generation
  call; and the answer generated on the \<open>(no context available)\<close> placeholder, which
  carries \<open>contextFound: false\<close> and the informational message and no \<open>source\<close> field.
  And whenever the extractive call returns a usable answer, the handler returns it from
  the world that call left: nothing is called after it.
\<close>

theorem one_answer_source:
  "(POST key search rq w = (resp, w') \<and> status resp = 200 \<longrightarrow>
      (get ''source'' (json resp) = JStr ''extractive-qa''
            \<and> get ''contextFound'' (json resp) = JBool True
            \<and> context_of (rows_of search) \<noteq> [] \<and> \<not> list_ex is_gen_call (new_calls w w'))
       \<or> (get ''source'' (json resp) = JStr ''generation''
            \<and> get ''contextFound'' (json resp) = JBool True
            \<and> context_of (rows_of search) \<noteq> [] \<and> list_ex is_gen_call (new_calls w w'))
       \<or> (get ''source'' (json resp) = Undefined
            \<and> get ''contextFound'' (json resp) = JBool False
            \<and> get ''answer'' (json resp) = JNull
            \<and> context_of (rows_of search) = [] \<and> \<not> list_ex is_gen_call (new_calls w w'))
       \<or> (get ''source'' (json resp) = Undefined
            \<and> get ''contextFound'' (json resp) = JBool False
            \<and> get ''info'' (json resp) = JStr generalAnswerInfo
            \<and> context_of (rows_of search) = [] \<and> list_ex is_gen_call (new_calls w w')))
   \<and> (ctx \<noteq> [] \<and> tryExtractiveQA key q ctx ''deepset/roberta-base-squad2'' v = (Inr qa, v1)
        \<and> usable qa \<longrightarrow>
        post_answer key q g ctx v =
          (\<lparr>status = 200,
            json = JObj [(''answer'', JStr (trim (answer (the qa)))), (''contextFound'', JBool True),
                         (''source'', JStr ''extractive-qa''),
                         (''score'', if nullish (score (the qa)) then JNull else score (the qa))]\<rparr>,
           v1))"
  using POST_200_sources [of key search rq w resp w'] usable_extractive [of ctx key q v qa v1 g]
  by blast

theorem one_answer_source_witness:
  "POST key0 (found invoice_rows) (Inr ask_about_payment) (start [r200, qa_ok, gen_ok]) =
     (\<lparr>status = 200,
       json = JObj [(''answer'', JStr ''No.''), (''contextFound'', JBool True),
                    (''source'', JStr ''extractive-qa''), (''score'', JNum (Number ''0.91''))]\<rparr>,
      \<lparr>responses = [gen_ok],
       trace = [Fetch (primary key0 ''Has Brandon paid?'' ''sentence-transformers/all-MiniLM-L6-v2''),
                Rpc (vec v2) (Number ''-0.3'') (JStr ''brandon@gmail.com''),
                Fetch (hf_request key0 (question_answering ''deepset/roberta-base-squad2'')
                  (JObj [(''inputs'', JObj [(''question'', JStr ''Has Brandon paid?''),
                     (''context'', JStr (''Invoice due.'' @ nl @ nl @ ''Thanks''))])]))]\<rparr>)
   \<and> \<not> list_ex is_gen_call (new_calls (start [r200, qa_ok, gen_ok])
        (snd (POST key0 (found invoice_rows) (Inr ask_about_payment) (start [r200, qa_ok, gen_ok]))))
   \<and> usable (Some \<lparr>answer = ''No.'', score = JNum (Number ''0.91'')\<rparr>)
   \<and> fst (post_answer key0 ''q'' False ''Invoice due.'' (start [qa_ok, gen_ok])) =
       \<lparr>status = 200,
        json = JObj [(''answer'', JStr ''No.''), (''contextFound'', JBool True),
                     (''source'', JStr ''extractive-qa''), (''score'', JNum (Number ''0.91''))]\<rparr>
   \<and> responses (snd (post_answer key0 ''q'' False ''Invoice due.'' (start [qa_ok, gen_ok]))) = [gen_ok]"
proof -
  have n: "trim ''No.'' = ''No.''"
    by (simp add: trim_eval)
  have u: "usable (Some \<lparr>answer = ''No.'', score = JNum (Number ''0.91'')\<rparr>)"
    by (simp add: n)
  have c: "''Invoice due.'' \<noteq> []"
    by simp
  have a: "tryExtractiveQA key0 ''q'' ''Invoice due.'' ''deepset/roberta-base-squad2''
      (start [qa_ok, gen_ok]) =
        (Inr (Some \<lparr>answer = ''No.'', score = JNum (Number ''0.91'')\<rparr>),
         \<lparr>responses = [gen_ok],
          trace = [Fetch (hf_request key0 (question_answering ''deepset/roberta-base-squad2'')
                  (JObj [(''inputs'', JObj [(''question'', JStr ''q''),
                     (''context'', JStr ''Invoice due.'')])]))]\<rparr>)"
    by (simp add: tryExtractiveQA_def key0_def start_def fetch_def qa_ok_def json_response_def ok_def qa_parse_def)
  from one_answer_source [where key = key0 and search = "found invoice_rows"
      and rq = "Inr ask_about_payment" and w = "start [r200, qa_ok, gen_ok]"
      and ctx = "(''Invoice due.'')" and q = "(''q'')" and v = "start [qa_ok, gen_ok]"
      and g = False
      and resp = "fst (POST key0 (found invoice_rows) (Inr ask_about_payment)
                    (start [r200, qa_ok, gen_ok]))"
      and w' = "snd (POST key0 (found invoice_rows) (Inr ask_about_payment)
                    (start [r200, qa_ok, gen_ok]))"
      and qa = "Some \<lparr>answer = ''No.'', score = JNum (Number ''0.91'')\<rparr>"] u c a
  show ?thesis
    unfolding run_extractive
    by (simp add: n new_calls_def start_def)
qed

text \<open>C1 as stated fails: with \<open>generateIfNoContext\<close> set and no context, the answer comes
  from a generation call, the status is 200, and the response has no \<open>source\<close> field.\<close>

theorem ungrounded_answer_has_no_source:
  "status (fst (POST key0 (found []) (Inr ask_anyway) (start [r200, gen_ok]))) = 200
   \<and> list_ex is_gen_call (new_calls (start [r200, gen_ok])
        (snd (POST key0 (found []) (Inr ask_anyway) (start [r200, gen_ok]))))
   \<and> get ''answer'' (json (fst (POST key0 (found []) (Inr ask_anyway) (start [r200, gen_ok]))))
        = JStr ''Not yet.''
   \<and> get ''source'' (json (fst (POST key0 (found []) (Inr ask_anyway) (start [r200, gen_ok]))))
        = Undefined
   \<and> Undefined \<noteq> JStr ''generation''"
  unfolding run_ungrounded
  by (simp add: new_calls_def start_def)

section \<open>An empty generated text\<close>

text \<open>
  C10, as amended. When the first text-generation call is answered with a 2xx status and
  an array whose first element has \<open>generated_text: ""\<close>, \<open>tryGenerateWithFallbacks\<close>
  returns the empty string after that one call: no text2text-generation call, no other
  model. The handler then answers 200 with the empty string as the answer: tagged
  \<open>source: "generation"\<close> when there is a context, and with \<open>contextFound: false\<close> and the
  informational message, without a \<open>source\<close> field, when there is none.
\<close>

theorem empty_generated_text_accepted:
  assumes "\<not> key_missing key"
    and "responses w = Response st t (Some (JArr (JObj ob # others))) # rest"
    and "ok st"
    and "get ''generated_text'' (JObj ob) = JStr []"
  shows "tryGenerateWithFallbacks key prompt (model # models) w =
           (Inr [], w\<lparr>responses := rest,
                     trace := trace w
                       @ [Fetch (hf_request key (text_generation model) (payload prompt))]\<rparr>)
       \<and> post_generate key question ctx w =
           (\<lparr>status = 200,
             json = (if ctx = [] then
                       JObj [(''answer'', JStr []), (''info'', JStr generalAnswerInfo),
                             (''contextFound'', JBool False)]
                     else
                       JObj [(''answer'', JStr []), (''contextFound'', JBool True),
                             (''source'', JStr ''generation'')])\<rparr>,
            w\<lparr>responses := rest,
              trace := trace w
                @ [Fetch (hf_request key (text_generation ''distilgpt2'')
                     (payload (build_prompt ctx question)))]\<rparr>)"
proof -
  have g: "gen_text (JArr (JObj ob # others)) = Some []"
    using assms(4) by (rule gen_text_empty_first)
  have a: "\<And>prompt model models. tryGenerateWithFallbacks key prompt (model # models) w =
           (Inr [], w\<lparr>responses := rest,
                     trace := trace w
                       @ [Fetch (hf_request key (text_generation model) (payload prompt))]\<rparr>)"
    using assms(1,2,3) g by (rule generate_first_call)
  show ?thesis
    by (simp add: a post_generate_def genModels_def)
qed

theorem empty_generated_text_accepted_witness:
  "\<not> key_missing key0 \<and> ok 200
   \<and> tryGenerateWithFallbacks key0 ''p'' two_models (start [gen_empty, gen_ok]) =
       (Inr [],
        \<lparr>responses = [gen_ok],
         trace = [Fetch (hf_request key0 (text_generation ''distilgpt2'') (payload ''p''))]\<rparr>)
   \<and> post_generate key0 ''q'' ''Invoice due.'' (start [gen_empty, gen_ok]) =
       (\<lparr>status = 200,
         json = JObj [(''answer'', JStr []), (''contextFound'', JBool True),
                      (''source'', JStr ''generation'')]\<rparr>,
        \<lparr>responses = [gen_ok],
         trace = [Fetch (hf_request key0 (text_generation ''distilgpt2'')
                    (payload (build_prompt ''Invoice due.'' ''q'')))]\<rparr>)"
proof -
  have k: "\<not> key_missing key0"
    by (simp add: key0_def)
  have r: "responses (start [gen_empty, gen_ok]) =
      Response 200 (stringify (JArr [JObj [(''generated_text'', JStr [])]]))
        (Some (JArr (JObj [(''generated_text'', JStr [])] # []))) # [gen_ok]"
    by (simp add: start_def gen_empty_def json_response_def)
  have o: "ok 200"
    by (simp add: ok_def)
  have t: "get ''generated_text'' (JObj [(''generated_text'', JStr [])]) = JStr []"
    by simp
  from empty_generated_text_accepted [OF k r o t, where prompt = "(''p'')"
      and model = "(''distilgpt2'')" and models = "[''gpt2-medium'']"
      and question = "(''q'')" and ctx = "(''Invoice due.'')"] k o
  show ?thesis
    by (simp add: two_models_def start_def)
qed

text \<open>C10 as stated fails twice. A body \<open>{"generated_text": ""}\<close> that is an object does
  not pass the truthiness test of line 110: the text returned, and the answer of the
  handler, is the dump of the body, not the empty string. And on the placeholder context
  the answer with the empty string has no \<open>source\<close> field.\<close>

theorem empty_text_object_is_dumped:
  "tryGenerateWithFallbacks key0 ''p'' two_models (start [gen_empty_object, gen_ok]) =
       (Inr empty_text_dump,
        \<lparr>responses = [gen_ok],
         trace = [Fetch (hf_request key0 (text_generation ''distilgpt2'') (payload ''p''))]\<rparr>)
   \<and> empty_text_dump \<noteq> []
   \<and> fst (post_generate key0 ''q'' ''Invoice due.'' (start [gen_empty_object, gen_ok])) =
       \<lparr>status = 200,
        json = JObj [(''answer'', JStr empty_text_dump), (''contextFound'', JBool True),
                     (''source'', JStr ''generation'')]\<rparr>
   \<and> fst (post_generate key0 ''q'' [] (start [gen_empty, gen_ok])) =
       \<lparr>status = 200,
        json = JObj [(''answer'', JStr []), (''info'', JStr generalAnswerInfo),
                     (''contextFound'', JBool False)]\<rparr>
   \<and> get ''source'' (json (fst (post_generate key0 ''q'' [] (start [gen_empty, gen_ok])))) = Undefined"
proof -
  have d: "trim empty_text_dump = empty_text_dump"
    by (simp add: empty_text_dump_def trim_eval)
  have a: "\<And>p. tryGenerateWithFallbacks key0 p genModels (start [gen_empty_object, gen_ok]) =
       (Inr empty_text_dump,
        \<lparr>responses = [gen_ok],
         trace = [Fetch (hf_request key0 (text_generation ''distilgpt2'') (payload p))]\<rparr>)"
    "tryGenerateWithFallbacks key0 ''p'' two_models (start [gen_empty_object, gen_ok]) =
       (Inr empty_text_dump,
        \<lparr>responses = [gen_ok],
         trace = [Fetch (hf_request key0 (text_generation ''distilgpt2'') (payload ''p''))]\<rparr>)"
    by (simp_all add: tryGenerateWithFallbacks_def key0_def genModels_def two_models_def start_def
        fetch_def gen_empty_object_def json_response_def ok_def gen_text_empty_object)
  have b: "\<And>p. tryGenerateWithFallbacks key0 p genModels (start [gen_empty, gen_ok]) =
       (Inr [],
        \<lparr>responses = [gen_ok],
         trace = [Fetch (hf_request key0 (text_generation ''distilgpt2'') (payload p))]\<rparr>)"
    by (simp add: tryGenerateWithFallbacks_def key0_def genModels_def start_def
        fetch_def gen_empty_def json_response_def ok_def gen_text_def)
  have e: "empty_text_dump \<noteq> []"
    by (simp add: empty_text_dump_def)
  show ?thesis
    by (simp add: a b d e post_generate_def)
qed

end
